theory Spec2Isabelle
  imports Complex_Main
begin

section \<open>The language of the notebooks\<close>

text \<open>
  The repository consists of two Jupyter notebooks, \<open>docs/tutorials/cta_sensitivity.ipynb\<close>
  and \<open>docs/tutorials/detect.ipynb\<close>. Their code cells are written in a small fragment of
  Python: imports, assignments, augmented assignments, expression statements and IPython
  magics. The abstract syntax below follows Python's \<open>ast\<close> module, node for node; the
  names of the constructors are the names of the \<open>ast\<close> classes. Node kinds that the
  notebooks do not use (\<open>For\<close>, \<open>While\<close>, \<open>If\<close>, \<open>Try\<close>, \<open>With\<close>, \<open>FunctionDef\<close>,
  \<open>Raise\<close>, \<open>Assert\<close>, \<open>IfExp\<close>, \<open>Lambda\<close>, \<open>ListComp\<close>, \<open>Await\<close>, ...) are kept as
  \<open>OtherStmt\<close> and \<open>OtherExpr\<close>, tagged with the class name, so that their absence from a
  notebook is a fact about the notebook and not about the syntax.
\<close>

datatype pyconst = PyInt int | PyFloat real | PyStr string | PyBool bool | PyNone

datatype operator = Add | Sub | Mult | Div | FloorDiv | Modulo | Power | MatMult

datatype unaryop = USub | UAdd | Invert | LogicalNot

datatype cmpop = Eq | NotEq | Lt | LtE | Gt | GtE | Is | IsNot | In | NotIn

datatype expr =
    Name string
  | Constant pyconst
  | Attribute expr string
  | Subscript expr expr
  | Call expr "expr list" "keyword list"
  | BinOp expr operator expr
  | UnaryOp unaryop expr
  | Compare expr cmpop expr
  | ListExpr "expr list"
  | TupleExpr "expr list"
  | JoinedStr "expr list"
  | FormattedValue expr
  | OtherExpr string "expr list"
and keyword = Keyword string expr

datatype stmt =
    Import string string
  | ImportFrom string "string list"
  | Assign expr expr
  | AugAssign expr operator expr
  | Expr expr
  | Magic string
  | Comment string
  | OtherStmt string "expr list" "stmt list"

text \<open>
  \<open>Import m a\<close> is \<open>import m as a\<close>; \<open>ImportFrom m ns\<close> is \<open>from m import ns\<close>. In
  \<open>Assign t e\<close> and \<open>AugAssign t op e\<close> the target \<open>t\<close> comes first, as in the source
  line. \<open>Magic\<close> is a line starting with \<open>%\<close>, and \<open>Comment\<close> a line starting with \<open>#\<close>;
  neither is Python, both stand in the cells.

  A code cell is its statements and a flag telling whether the source of the cell ends
  with a semicolon: IPython displays the value of a cell's last expression statement
  unless it does. Markdown cells hold no code and are left out.
\<close>

datatype cell = Cell "stmt list" bool

type_synonym notebook = "cell list"

abbreviation StrC :: "string \<Rightarrow> expr" where
  "StrC s \<equiv> Constant (PyStr s)"

abbreviation IntC :: "int \<Rightarrow> expr" where
  "IntC i \<equiv> Constant (PyInt i)"

abbreviation FloatC :: "real \<Rightarrow> expr" where
  "FloatC x \<equiv> Constant (PyFloat x)"

abbreviation BoolC :: "bool \<Rightarrow> expr" where
  "BoolC b \<equiv> Constant (PyBool b)"

text \<open>The two quote characters, for the text of comments that contain them.\<close>

abbreviation squote :: char where
  "squote \<equiv> CHR 0x27"

abbreviation dquote :: char where
  "dquote \<equiv> CHR 0x22"

section \<open>The notebook cta\_sensitivity\<close>

text \<open>Source lines 39-41 and 50-59: the setup cells.\<close>

definition cta_setup :: cell where
  "cta_setup = Cell
     [Magic ''%matplotlib inline'',
      Import ''matplotlib.pyplot'' ''plt'',
      Import ''numpy'' ''np''] False"

definition cta_imports :: cell where
  "cta_imports = Cell
     [Import ''astropy.units'' ''u'',
      ImportFrom ''astropy.coordinates'' [''Angle'', ''SkyCoord''],
      ImportFrom ''regions'' [''CircleSkyRegion''],
      ImportFrom ''gammapy.irf'' [''load_cta_irfs''],
      ImportFrom ''gammapy.makers'' [''SpectrumDatasetMaker''],
      ImportFrom ''gammapy.data'' [''Observation''],
      ImportFrom ''gammapy.estimators'' [''SensitivityEstimator''],
      ImportFrom ''gammapy.datasets'' [''SpectrumDataset'', ''SpectrumDatasetOnOff''],
      ImportFrom ''gammapy.maps'' [''MapAxis'']] False"

text \<open>Source lines 77-85: analysis region and energy binning.\<close>

definition cta_region :: cell where
  "cta_region = Cell
     [Assign (Name ''center'') (Call (Name ''SkyCoord'') [StrC ''0 deg'', StrC ''0.5 deg''] []),
      Assign (Name ''region'')
        (Call (Name ''CircleSkyRegion'') []
           [Keyword ''center'' (Name ''center''),
            Keyword ''radius'' (BinOp (FloatC 0.1) Mult (Attribute (Name ''u'') ''deg''))]),
      Assign (Name ''e_reco'')
        (Call (Attribute (Name ''MapAxis'') ''from_energy_bounds'')
           [StrC ''0.03 TeV'', StrC ''30 TeV''] [Keyword ''nbin'' (IntC 20)]),
      Assign (Name ''e_true'')
        (Call (Attribute (Name ''MapAxis'') ''from_energy_bounds'')
           [StrC ''0.01 TeV'', StrC ''100 TeV''] [Keyword ''nbin'' (IntC 100)]),
      Assign (Name ''empty_dataset'')
        (Call (Attribute (Name ''SpectrumDataset'') ''create'') []
           [Keyword ''e_reco'' (Name ''e_reco''),
            Keyword ''e_true'' (Name ''e_true''),
            Keyword ''region'' (Name ''region'')])] False"

text \<open>Source lines 103-108 and 117-120: the instrument response and the dataset.\<close>

definition cta_irfs :: cell where
  "cta_irfs = Cell
     [Assign (Name ''irfs'')
        (Call (Name ''load_cta_irfs'')
           [StrC ''$GAMMAPY_DATA/cta-1dc/caldb/data/cta/1dc/bcf/South_z20_50h/irf_file.fits''] []),
      Assign (Name ''pointing'') (Call (Name ''SkyCoord'') [StrC ''0 deg'', StrC ''0 deg''] []),
      Assign (Name ''obs'')
        (Call (Attribute (Name ''Observation'') ''create'') []
           [Keyword ''pointing'' (Name ''pointing''),
            Keyword ''irfs'' (Name ''irfs''),
            Keyword ''livetime'' (StrC ''5 h'')])] False"

definition cta_maker :: cell where
  "cta_maker = Cell
     [Assign (Name ''spectrum_maker'')
        (Call (Name ''SpectrumDatasetMaker'') []
           [Keyword ''selection'' (ListExpr [StrC ''aeff'', StrC ''edisp'', StrC ''background''])]),
      Assign (Name ''dataset'')
        (Call (Attribute (Name ''spectrum_maker'') ''run'')
           [Name ''empty_dataset'', Name ''obs''] [])] False"

text \<open>Source lines 136-146: the containment correction.\<close>

definition cta_containment :: cell where
  "cta_containment = Cell
     [Assign (Name ''containment'') (FloatC 0.68),
      Comment ''# correct effective area'',
      AugAssign (Attribute (Attribute (Attribute (Name ''dataset'') ''aeff'') ''data'') ''data'')
        Mult (Name ''containment''),
      Comment ''# correct background estimation'',
      Assign (Name ''on_radii'')
        (Subscript
           (Call (Attribute (Attribute (Name ''obs'') ''psf'') ''containment_radius'') []
              [Keyword ''energy'' (Attribute (Name ''e_reco'') ''center''),
               Keyword ''theta'' (BinOp (FloatC 0.5) Mult (Attribute (Name ''u'') ''deg'')),
               Keyword ''fraction'' (Name ''containment'')])
           (IntC 0)),
      Assign (Name ''factor'')
        (BinOp
           (BinOp (IntC 1) Sub (Call (Attribute (Name ''np'') ''cos'') [Name ''on_radii''] []))
           Div
           (BinOp (IntC 1) Sub
              (Call (Attribute (Name ''np'') ''cos'') [Attribute (Name ''region'') ''radius''] []))),
      AugAssign (Attribute (Attribute (Name ''dataset'') ''background'') ''data'')
        Mult
        (Call (Attribute (Attribute (Name ''factor'') ''value'') ''reshape'')
           [TupleExpr [UnaryOp USub (IntC 1), IntC 1, IntC 1]] [])] False"

text \<open>Source lines 162-164 and 183-184: the on-off dataset and the estimator.\<close>

definition cta_on_off :: cell where
  "cta_on_off = Cell
     [Assign (Name ''dataset_on_off'')
        (Call (Attribute (Name ''SpectrumDatasetOnOff'') ''from_spectrum_dataset'') []
           [Keyword ''dataset'' (Name ''dataset''),
            Keyword ''acceptance'' (IntC 1),
            Keyword ''acceptance_off'' (IntC 5)])] False"

definition cta_estimate :: cell where
  "cta_estimate = Cell
     [Assign (Name ''sensitivity_estimator'')
        (Call (Name ''SensitivityEstimator'') []
           [Keyword ''gamma_min'' (IntC 5), Keyword ''sigma'' (IntC 3)]),
      Assign (Name ''sensitivity_table'')
        (Call (Attribute (Name ''sensitivity_estimator'') ''run'') [Name ''dataset_on_off''] [])]
     False"

text \<open>Source lines 203-204 and 213-214: the table is shown; writing it is commented out.\<close>

definition cta_show :: cell where
  "cta_show = Cell
     [Comment ''# Show the results table'',
      Expr (Name ''sensitivity_table'')] False"

definition cta_save :: cell where
  "cta_save = Cell
     [Comment ''# Save it to file (could use e.g. format of CSV or ECSV or FITS)'',
      Comment (''# sensitivity_table.write('' @ squote # ''sensitivity.ecsv'' @ squote #
        '', format='' @ squote # ''ascii.ecsv'' @ squote # '')'')]
     False"

text \<open>Source lines 223-243 and 259-274: the plots.\<close>

definition cta_plot :: cell where
  "cta_plot = Cell
     [Comment ''# Plot the sensitivity curve'',
      Assign (Name ''t'') (Name ''sensitivity_table''),
      Assign (Name ''is_s'')
        (Compare (Subscript (Name ''t'') (StrC ''criterion'')) Eq (StrC ''significance'')),
      Expr (Call (Attribute (Name ''plt'') ''plot'')
        [Subscript (Subscript (Name ''t'') (StrC ''energy'')) (Name ''is_s''),
         Subscript (Subscript (Name ''t'') (StrC ''e2dnde'')) (Name ''is_s''),
         StrC ''s-'']
        [Keyword ''color'' (StrC ''red''), Keyword ''label'' (StrC ''significance'')]),
      Assign (Name ''is_g'')
        (Compare (Subscript (Name ''t'') (StrC ''criterion'')) Eq (StrC ''gamma'')),
      Expr (Call (Attribute (Name ''plt'') ''plot'')
        [Subscript (Subscript (Name ''t'') (StrC ''energy'')) (Name ''is_g''),
         Subscript (Subscript (Name ''t'') (StrC ''e2dnde'')) (Name ''is_g''),
         StrC ''*-'']
        [Keyword ''color'' (StrC ''blue''), Keyword ''label'' (StrC ''gamma'')]),
      Expr (Call (Attribute (Name ''plt'') ''loglog'') [] []),
      Expr (Call (Attribute (Name ''plt'') ''xlabel'')
        [JoinedStr [StrC ''Energy ('',
           FormattedValue (Attribute (Subscript (Name ''t'') (StrC ''energy'')) ''unit''),
           StrC '')'']] []),
      Expr (Call (Attribute (Name ''plt'') ''ylabel'')
        [JoinedStr [StrC ''Sensitivity ('',
           FormattedValue (Attribute (Subscript (Name ''t'') (StrC ''e2dnde'')) ''unit''),
           StrC '')'']] []),
      Expr (Call (Attribute (Name ''plt'') ''legend'') [] [])] True"

definition cta_control :: cell where
  "cta_control = Cell
     [Comment ''# Plot expected number of counts for signal and background'',
      Assign (TupleExpr [Name ''fig'', Name ''ax1''])
        (Call (Attribute (Name ''plt'') ''subplots'') [] []),
      Comment (''# ax1.plot( t['' @ dquote # ''energy'' @ dquote # ''], t['' @ dquote # ''excess'' @
        dquote # ''],'' @ dquote # ''o-'' @ dquote # '', color='' @ dquote # ''red'' @ dquote #
        '', label='' @ dquote # ''signal'' @ dquote # '')''),
      Expr (Call (Attribute (Name ''ax1'') ''plot'')
        [Subscript (Name ''t'') (StrC ''energy''),
         Subscript (Name ''t'') (StrC ''background''),
         StrC ''o-'']
        [Keyword ''color'' (StrC ''black''), Keyword ''label'' (StrC ''blackground'')]),
      Expr (Call (Attribute (Name ''ax1'') ''loglog'') [] []),
      Expr (Call (Attribute (Name ''ax1'') ''set_xlabel'')
        [JoinedStr [StrC ''Energy ('',
           FormattedValue (Attribute (Subscript (Name ''t'') (StrC ''energy'')) ''unit''),
           StrC '')'']] []),
      Expr (Call (Attribute (Name ''ax1'') ''set_ylabel'')
        [StrC ''Expected number of bkg counts''] []),
      Assign (Name ''ax2'') (Call (Attribute (Name ''ax1'') ''twinx'') [] []),
      Expr (Call (Attribute (Name ''ax2'') ''set_ylabel'')
        [JoinedStr [StrC ''ON region radius ('',
           FormattedValue (Attribute (Name ''on_radii'') ''unit''),
           StrC '')'']]
        [Keyword ''color'' (StrC ''red'')]),
      Expr (Call (Attribute (Name ''ax2'') ''semilogy'')
        [Subscript (Name ''t'') (StrC ''energy''), Name ''on_radii'']
        [Keyword ''color'' (StrC ''red''), Keyword ''label'' (StrC ''PSF68'')]),
      Expr (Call (Attribute (Name ''ax2'') ''tick_params'') []
        [Keyword ''axis'' (StrC ''y''), Keyword ''labelcolor'' (StrC ''red'')]),
      Expr (Call (Attribute (Name ''ax2'') ''set_ylim'') [FloatC 0.01, FloatC 0.5] [])] False"

definition cta_sensitivity :: notebook where
  "cta_sensitivity =
     [cta_setup, cta_imports, cta_region, cta_irfs, cta_maker, cta_containment,
      cta_on_off, cta_estimate, cta_show, cta_save, cta_plot, cta_control]"

section \<open>The notebook detect\<close>

text \<open>Source lines 52-71: the setup cell.\<close>

definition detect_setup :: cell where
  "detect_setup = Cell
     [Magic ''%matplotlib inline'',
      Import ''matplotlib.pyplot'' ''plt'',
      Import ''matplotlib.cm'' ''cm'',
      ImportFrom ''gammapy.maps'' [''Map''],
      ImportFrom ''gammapy.estimators'' [''ASmoothMapEstimator'', ''TSMapEstimator''],
      ImportFrom ''gammapy.estimators.utils'' [''find_peaks''],
      ImportFrom ''gammapy.datasets'' [''MapDataset''],
      ImportFrom ''gammapy.modeling.models''
        [''BackgroundModel'', ''SkyModel'', ''PowerLawSpectralModel'', ''PointSpatialModel''],
      ImportFrom ''gammapy.irf'' [''PSFMap'', ''EnergyDependentTablePSF''],
      ImportFrom ''astropy.coordinates'' [''SkyCoord''],
      Import ''astropy.units'' ''u'',
      Import ''numpy'' ''np''] False"

text \<open>Source lines 89-118: the input images and the dataset.\<close>

definition detect_read :: cell where
  "detect_read = Cell
     [Assign (Name ''counts'')
        (Call (Attribute (Name ''Map'') ''read'')
           [StrC ''$GAMMAPY_DATA/fermi-3fhl-gc/fermi-3fhl-gc-counts-cube.fits.gz''] []),
      Assign (Name ''background'')
        (Call (Attribute (Name ''Map'') ''read'')
           [StrC ''$GAMMAPY_DATA/fermi-3fhl-gc/fermi-3fhl-gc-background-cube.fits.gz''] []),
      Assign (Name ''background'')
        (Call (Name ''BackgroundModel'') [Name ''background'']
           [Keyword ''datasets_names'' (ListExpr [StrC ''fermi-3fhl-gc''])]),
      Assign (Name ''exposure'')
        (Call (Attribute (Name ''Map'') ''read'')
           [StrC ''$GAMMAPY_DATA/fermi-3fhl-gc/fermi-3fhl-gc-exposure-cube.fits.gz''] []),
      Comment ''# unit is not properly stored on the file. We add it manually'',
      Assign (Attribute (Name ''exposure'') ''unit'') (StrC ''cm2s''),
      Assign (Name ''mask_safe'')
        (Call (Attribute (Name ''counts'') ''copy'') []
           [Keyword ''data''
              (Call
                 (Attribute
                    (Call (Attribute (Name ''np'') ''ones_like'')
                       [Attribute (Name ''counts'') ''data''] [])
                    ''astype'')
                 [StrC ''bool''] [])]),
      Assign (Name ''psf'')
        (Call (Attribute (Name ''EnergyDependentTablePSF'') ''read'')
           [StrC ''$GAMMAPY_DATA/fermi-3fhl-gc/fermi-3fhl-gc-psf-cube.fits.gz''] []),
      Assign (Name ''psfmap'')
        (Call (Attribute (Name ''PSFMap'') ''from_energy_dependent_table_psf'') [Name ''psf''] []),
      Assign (Name ''dataset'')
        (Call (Name ''MapDataset'') []
           [Keyword ''counts'' (Name ''counts''),
            Keyword ''models'' (ListExpr [Name ''background'']),
            Keyword ''exposure'' (Name ''exposure''),
            Keyword ''psf'' (Name ''psfmap''),
            Keyword ''mask_safe'' (Name ''mask_safe''),
            Keyword ''name'' (StrC ''fermi-3fhl-gc'')]),
      Assign (Name ''dataset'') (Call (Attribute (Name ''dataset'') ''to_image'') [] [])] False"

text \<open>Source lines 138-144: adaptive smoothing.\<close>

definition detect_smooth :: cell where
  "detect_smooth = Cell
     [Magic ''%%time'',
      Assign (Name ''scales'')
        (Call (Attribute (Name ''u'') ''Quantity'')
           [Call (Attribute (Name ''np'') ''arange'') [FloatC 0.05, IntC 1, FloatC 0.05] []]
           [Keyword ''unit'' (StrC ''deg'')]),
      Assign (Name ''smooth'')
        (Call (Name ''ASmoothMapEstimator'') []
           [Keyword ''threshold'' (IntC 3), Keyword ''scales'' (Name ''scales'')]),
      Assign (Name ''images'') (Call (Attribute (Name ''smooth'') ''run'') [Name ''dataset''] []),
      Expr (Call (Attribute (Name ''plt'') ''figure'') []
        [Keyword ''figsize'' (TupleExpr [IntC 15, IntC 5])]),
      Expr (Call (Attribute (Subscript (Name ''images'') (StrC ''counts'')) ''plot'') []
        [Keyword ''add_cbar'' (BoolC True), Keyword ''vmax'' (IntC 10)])] False"

text \<open>Source lines 165-167 and 176-178: the point-source model and the TS map.\<close>

definition detect_model :: cell where
  "detect_model = Cell
     [Assign (Name ''spatial_model'') (Call (Name ''PointSpatialModel'') [] []),
      Assign (Name ''spectral_model'')
        (Call (Name ''PowerLawSpectralModel'') [] [Keyword ''index'' (IntC 2)]),
      Assign (Name ''model'')
        (Call (Name ''SkyModel'') []
           [Keyword ''spatial_model'' (Name ''spatial_model''),
            Keyword ''spectral_model'' (Name ''spectral_model'')])] False"

definition detect_ts :: cell where
  "detect_ts = Cell
     [Magic ''%%time'',
      Assign (Name ''estimator'')
        (Call (Name ''TSMapEstimator'') [Name ''model'']
           [Keyword ''kernel_width'' (StrC ''0.4 deg'')]),
      Assign (Name ''images'')
        (Call (Attribute (Name ''estimator'') ''run'') [Name ''dataset''] [])] False"

text \<open>Source lines 194-195, 204-205 and 214-215: the resulting images.\<close>

definition detect_plot_sqrt_ts :: cell where
  "detect_plot_sqrt_ts = Cell
     [Expr (Call (Attribute (Name ''plt'') ''figure'') []
        [Keyword ''figsize'' (TupleExpr [IntC 15, IntC 5])]),
      Expr (Call (Attribute (Subscript (Name ''images'') (StrC ''sqrt_ts'')) ''plot'') []
        [Keyword ''add_cbar'' (BoolC True)])] True"

definition detect_plot_flux :: cell where
  "detect_plot_flux = Cell
     [Expr (Call (Attribute (Name ''plt'') ''figure'') []
        [Keyword ''figsize'' (TupleExpr [IntC 15, IntC 5])]),
      Expr (Call (Attribute (Subscript (Name ''images'') (StrC ''flux'')) ''plot'') []
        [Keyword ''add_cbar'' (BoolC True),
         Keyword ''stretch'' (StrC ''sqrt''),
         Keyword ''vmin'' (IntC 0)])] True"

definition detect_plot_niter :: cell where
  "detect_plot_niter = Cell
     [Expr (Call (Attribute (Name ''plt'') ''figure'') []
        [Keyword ''figsize'' (TupleExpr [IntC 15, IntC 5])]),
      Expr (Call (Attribute (Subscript (Name ''images'') (StrC ''niter'')) ''plot'') []
        [Keyword ''add_cbar'' (BoolC True)])] True"

text \<open>Source lines 234-236 and 245-259: the source candidates.\<close>

definition detect_peaks :: cell where
  "detect_peaks = Cell
     [Assign (Name ''sources'')
        (Call (Name ''find_peaks'') [Subscript (Name ''images'') (StrC ''sqrt_ts'')]
           [Keyword ''threshold'' (IntC 8), Keyword ''min_distance'' (IntC 1)]),
      Assign (Name ''nsou'') (Call (Name ''len'') [Name ''sources''] []),
      Expr (Name ''sources'')] False"

definition detect_plot_sources :: cell where
  "detect_plot_sources = Cell
     [Comment ''# Plot sources on top of significance sky image'',
      Expr (Call (Attribute (Name ''plt'') ''figure'') []
        [Keyword ''figsize'' (TupleExpr [IntC 15, IntC 5])]),
      Assign (TupleExpr [Name ''_'', Name ''ax'', Name ''_''])
        (Call (Attribute (Subscript (Name ''images'') (StrC ''sqrt_ts'')) ''plot'') []
           [Keyword ''add_cbar'' (BoolC True)]),
      Expr (Call (Attribute (Name ''ax'') ''scatter'')
        [Subscript (Name ''sources'') (StrC ''ra''),
         Subscript (Name ''sources'') (StrC ''dec'')]
        [Keyword ''transform''
           (Call (Attribute (Call (Attribute (Name ''plt'') ''gca'') [] []) ''get_transform'')
              [StrC ''icrs''] []),
         Keyword ''color'' (StrC ''none''),
         Keyword ''edgecolor'' (StrC ''w''),
         Keyword ''marker'' (StrC ''o''),
         Keyword ''s'' (IntC 600),
         Keyword ''lw'' (FloatC 1.5)])] True"

text \<open>Source line 290: the last code cell is empty.\<close>

definition detect_empty :: cell where
  "detect_empty = Cell [] False"

definition detect :: notebook where
  "detect =
     [detect_setup, detect_read, detect_smooth, detect_model, detect_ts,
      detect_plot_sqrt_ts, detect_plot_flux, detect_plot_niter, detect_peaks,
      detect_plot_sources, detect_empty]"

section \<open>Running a notebook\<close>

text \<open>
  The notebooks define no function of their own: every operation they perform on a value is
  carried out by the Python runtime and the libraries they import (gammapy, astropy,
  regions, numpy, matplotlib). The execution model keeps the two sides apart. What the
  notebook text fixes is the order of evaluation, the binding of names and the
  propagation of exceptions. What an operation does is a parameter, the runtime: it is
  asked to perform one primitive operation at a time, on values of a type \<open>'v\<close> that the
  notebook never inspects, in a world \<open>'w\<close> (the files, the objects of the libraries, the
  figures) that only the runtime can read or change.
\<close>

datatype primop =
    LoadBuiltin string
  | LoadConst pyconst
  | ImportModule string
  | GetAttr string
  | SetAttr string
  | GetItem
  | CallFunction nat "string list"
  | Binary operator
  | Inplace operator
  | Unary unaryop
  | CompareOp cmpop
  | BuildList
  | BuildTuple
  | BuildString
  | FormatValue
  | UnpackItem nat nat
  | RunMagic string
  | Display

text \<open>
  \<open>LoadBuiltin x\<close> looks up a name the notebook has not bound (\<open>len\<close>; an unknown name
  raises \<open>NameError\<close> there). \<open>CallFunction n ks\<close> calls its first argument on \<open>n\<close>
  positional arguments followed by the values of the keywords \<open>ks\<close>. \<open>UnpackItem n i\<close>
  is item \<open>i\<close> of a value unpacked into \<open>n\<close> targets. \<open>Display\<close> is IPython showing
  the value of a cell's last expression.

  An operation returns a value or raises an exception. The runtime gives the set of
  possible outcomes of an operation, each with the world it leaves: one outcome when the
  operation is deterministic, none when it does not terminate.
\<close>

datatype ('a, 'e) outcome = Returns 'a | Raises 'e

datatype ('v, 'e) event = Event primop "'v list" "('v, 'e) outcome"

type_synonym ('v, 'w, 'e) runtime = "primop \<Rightarrow> 'v list \<Rightarrow> 'w \<Rightarrow> (('v, 'e) outcome \<times> 'w) set"

text \<open>
  A configuration is the world and the log of the operations performed so far, each with
  its arguments and its outcome. A computation maps a configuration to its possible
  outcomes.
\<close>

type_synonym ('v, 'w, 'e) config = "'w \<times> ('v, 'e) event list"

type_synonym ('a, 'v, 'w, 'e) comp =
  "('v, 'w, 'e) config \<Rightarrow> (('a, 'e) outcome \<times> ('v, 'w, 'e) config) set"

definition ret :: "'a \<Rightarrow> ('a, 'v, 'w, 'e) comp" where
  "ret a = (\<lambda>c. {(Returns a, c)})"

definition stuck :: "('a, 'v, 'w, 'e) comp" where
  "stuck = (\<lambda>c. {})"

text \<open>
  Sequencing: an exception of the first computation is the outcome of the whole, and the
  second computation is not run. The notebooks have no other way of combining operations.
\<close>

definition after ::
  "('a, 'e) outcome \<times> ('v, 'w, 'e) config \<Rightarrow> ('a \<Rightarrow> ('b, 'v, 'w, 'e) comp) \<Rightarrow>
   (('b, 'e) outcome \<times> ('v, 'w, 'e) config) set" where
  "after rc f = (case rc of (Returns a, c) \<Rightarrow> f a c | (Raises e, c) \<Rightarrow> {(Raises e, c)})"

definition bind ::
  "('a, 'v, 'w, 'e) comp \<Rightarrow> ('a \<Rightarrow> ('b, 'v, 'w, 'e) comp) \<Rightarrow> ('b, 'v, 'w, 'e) comp" where
  "bind m f = (\<lambda>c. \<Union>rc \<in> m c. after rc f)"

definition prim :: "('v, 'w, 'e) runtime \<Rightarrow> primop \<Rightarrow> 'v list \<Rightarrow> ('v, 'v, 'w, 'e) comp" where
  "prim R op args = (\<lambda>(w, tr). (\<lambda>(r, w'). (r, (w', tr @ [Event op args r]))) ` R op args w)"

subsection \<open>Expressions\<close>

text \<open>
  Python evaluates the operands of an expression from left to right: the function before
  its arguments, positional arguments before keyword arguments. Expression kinds outside
  the fragment have no modelled behaviour.
\<close>

type_synonym 'v env = "string \<Rightarrow> 'v option"

fun keyword_name :: "keyword \<Rightarrow> string" where
  "keyword_name (Keyword k e) = k"

fun eval :: "('v, 'w, 'e) runtime \<Rightarrow> 'v env \<Rightarrow> expr \<Rightarrow> ('v, 'v, 'w, 'e) comp"
and evals :: "('v, 'w, 'e) runtime \<Rightarrow> 'v env \<Rightarrow> expr list \<Rightarrow> ('v list, 'v, 'w, 'e) comp"
and eval_keywords :: "('v, 'w, 'e) runtime \<Rightarrow> 'v env \<Rightarrow> keyword list \<Rightarrow> ('v list, 'v, 'w, 'e) comp"
where
  "eval R env (Name x) = (case env x of Some v \<Rightarrow> ret v | None \<Rightarrow> prim R (LoadBuiltin x) [])"
| "eval R env (Constant k) = prim R (LoadConst k) []"
| "eval R env (Attribute e a) = bind (eval R env e) (\<lambda>v. prim R (GetAttr a) [v])"
| "eval R env (Subscript e i) =
     bind (eval R env e) (\<lambda>v. bind (eval R env i) (\<lambda>k. prim R GetItem [v, k]))"
| "eval R env (Call f args kws) =
     bind (eval R env f) (\<lambda>fv.
     bind (evals R env args) (\<lambda>avs.
     bind (eval_keywords R env kws) (\<lambda>kvs.
     prim R (CallFunction (length args) (map keyword_name kws)) (fv # avs @ kvs))))"
| "eval R env (BinOp l op r) =
     bind (eval R env l) (\<lambda>a. bind (eval R env r) (\<lambda>b. prim R (Binary op) [a, b]))"
| "eval R env (UnaryOp op e) = bind (eval R env e) (\<lambda>v. prim R (Unary op) [v])"
| "eval R env (Compare l op r) =
     bind (eval R env l) (\<lambda>a. bind (eval R env r) (\<lambda>b. prim R (CompareOp op) [a, b]))"
| "eval R env (ListExpr es) = bind (evals R env es) (prim R BuildList)"
| "eval R env (TupleExpr es) = bind (evals R env es) (prim R BuildTuple)"
| "eval R env (JoinedStr es) = bind (evals R env es) (prim R BuildString)"
| "eval R env (FormattedValue e) = bind (eval R env e) (\<lambda>v. prim R FormatValue [v])"
| "eval R env (OtherExpr k es) = stuck"
| "evals R env [] = ret []"
| "evals R env (e # es) =
     bind (eval R env e) (\<lambda>v. bind (evals R env es) (\<lambda>vs. ret (v # vs)))"
| "eval_keywords R env [] = ret []"
| "eval_keywords R env (Keyword k e # kws) =
     bind (eval R env e) (\<lambda>v. bind (eval_keywords R env kws) (\<lambda>vs. ret (v # vs)))"

subsection \<open>Statements, cells, notebooks\<close>

text \<open>
  An assignment evaluates its right-hand side first. A name target binds the name; an
  attribute target evaluates the object and asks the runtime to store the attribute; a
  tuple of names takes the items of the value one by one. An augmented assignment to
  \<open>o.a\<close> evaluates \<open>o\<close> once, loads \<open>o.a\<close>, evaluates the right-hand side, applies the
  in-place operator and stores the result in \<open>o.a\<close>. \<open>from m import n\<close> imports the
  module and loads each name from it. A magic line is run by the runtime; after
  \<open>%%time\<close> the statements of the cell are executed as usual. A comment does nothing.
  Targets and statements outside the fragment have no modelled behaviour.
\<close>

fun unpack_to :: "('v, 'w, 'e) runtime \<Rightarrow> 'v \<Rightarrow> nat \<Rightarrow> nat \<Rightarrow> expr list \<Rightarrow> 'v env \<Rightarrow>
    ('v env, 'v, 'w, 'e) comp" where
  "unpack_to R v n i [] env = ret env"
| "unpack_to R v n i (Name x # ts) env =
     bind (prim R (UnpackItem n i) [v]) (\<lambda>u. unpack_to R v n (Suc i) ts (env(x \<mapsto> u)))"
| "unpack_to R v n i (t # ts) env = stuck"

fun assign :: "('v, 'w, 'e) runtime \<Rightarrow> 'v env \<Rightarrow> expr \<Rightarrow> 'v \<Rightarrow> ('v env, 'v, 'w, 'e) comp" where
  "assign R env (Name x) v = ret (env(x \<mapsto> v))"
| "assign R env (Attribute e a) v =
     bind (eval R env e) (\<lambda>ob. bind (prim R (SetAttr a) [ob, v]) (\<lambda>u. ret env))"
| "assign R env (TupleExpr ts) v = unpack_to R v (length ts) 0 ts env"
| "assign R env t v = stuck"

fun import_from :: "('v, 'w, 'e) runtime \<Rightarrow> 'v \<Rightarrow> string list \<Rightarrow> 'v env \<Rightarrow> ('v env, 'v, 'w, 'e) comp" where
  "import_from R m [] env = ret env"
| "import_from R m (n # ns) env =
     bind (prim R (GetAttr n) [m]) (\<lambda>v. import_from R m ns (env(n \<mapsto> v)))"

fun exec_stmt :: "('v, 'w, 'e) runtime \<Rightarrow> stmt \<Rightarrow> 'v env \<Rightarrow> ('v env, 'v, 'w, 'e) comp" where
  "exec_stmt R (Import m a) env = bind (prim R (ImportModule m) []) (\<lambda>v. ret (env(a \<mapsto> v)))"
| "exec_stmt R (ImportFrom m ns) env =
     bind (prim R (ImportModule m) []) (\<lambda>v. import_from R v ns env)"
| "exec_stmt R (Assign t e) env = bind (eval R env e) (assign R env t)"
| "exec_stmt R (AugAssign (Name x) op e) env =
     bind (eval R env (Name x)) (\<lambda>old.
     bind (eval R env e) (\<lambda>v.
     bind (prim R (Inplace op) [old, v]) (\<lambda>new. ret (env(x \<mapsto> new)))))"
| "exec_stmt R (AugAssign (Attribute t a) op e) env =
     bind (eval R env t) (\<lambda>ob.
     bind (prim R (GetAttr a) [ob]) (\<lambda>old.
     bind (eval R env e) (\<lambda>v.
     bind (prim R (Inplace op) [old, v]) (\<lambda>new.
     bind (prim R (SetAttr a) [ob, new]) (\<lambda>u. ret env)))))"
| "exec_stmt R (AugAssign t op e) env = stuck"
| "exec_stmt R (Expr e) env = bind (eval R env e) (\<lambda>v. ret env)"
| "exec_stmt R (Magic m) env = bind (prim R (RunMagic m) []) (\<lambda>v. ret env)"
| "exec_stmt R (Comment c) env = ret env"
| "exec_stmt R (OtherStmt k es body) env = stuck"

fun exec_stmts :: "('v, 'w, 'e) runtime \<Rightarrow> stmt list \<Rightarrow> 'v env \<Rightarrow> ('v env, 'v, 'w, 'e) comp" where
  "exec_stmts R [] env = ret env"
| "exec_stmts R (s # ss) env = bind (exec_stmt R s env) (exec_stmts R ss)"

text \<open>
  IPython shows the value of the last statement of a cell when it is an expression and
  the source of the cell does not end with a semicolon. A run executes the cells in
  their order, from no names bound, and ends at the first exception, as running all
  cells of a notebook does.
\<close>

fun displayed :: "cell \<Rightarrow> expr option" where
  "displayed (Cell ss semi) =
     (if semi \<or> ss = [] then None else case last ss of Expr e \<Rightarrow> Some e | _ \<Rightarrow> None)"

fun exec_cell :: "('v, 'w, 'e) runtime \<Rightarrow> cell \<Rightarrow> 'v env \<Rightarrow> ('v env, 'v, 'w, 'e) comp" where
  "exec_cell R (Cell ss semi) env =
     (case displayed (Cell ss semi) of
        None \<Rightarrow> exec_stmts R ss env
      | Some e \<Rightarrow>
          bind (exec_stmts R (butlast ss) env) (\<lambda>env'.
          bind (eval R env' e) (\<lambda>v.
          bind (prim R Display [v]) (\<lambda>u. ret env'))))"

fun exec_cells :: "('v, 'w, 'e) runtime \<Rightarrow> notebook \<Rightarrow> 'v env \<Rightarrow> ('v env, 'v, 'w, 'e) comp" where
  "exec_cells R [] env = ret env"
| "exec_cells R (c # cs) env = bind (exec_cell R c env) (exec_cells R cs)"

definition run :: "('v, 'w, 'e) runtime \<Rightarrow> notebook \<Rightarrow> 'w \<Rightarrow>
    (('v env, 'e) outcome \<times> ('v, 'w, 'e) config) set" where
  "run R nb w = exec_cells R nb Map.empty (w, [])"

subsection \<open>Straight-line code\<close>

text \<open>
  A notebook is straight-line when all its statements are imports, assignments, augmented
  assignments, expression statements, magics and comments, over expressions of the
  fragment: no loop, no conditional, no \<open>try\<close>, no \<open>raise\<close> or \<open>assert\<close>, no function
  or class definition, no \<open>lambda\<close>, comprehension or conditional expression.
\<close>

fun plain_expr :: "expr \<Rightarrow> bool"
and plain_exprs :: "expr list \<Rightarrow> bool"
and plain_keywords :: "keyword list \<Rightarrow> bool" where
  "plain_expr (Name x) = True"
| "plain_expr (Constant k) = True"
| "plain_expr (Attribute e a) = plain_expr e"
| "plain_expr (Subscript e i) = (plain_expr e \<and> plain_expr i)"
| "plain_expr (Call f args kws) = (plain_expr f \<and> plain_exprs args \<and> plain_keywords kws)"
| "plain_expr (BinOp l op r) = (plain_expr l \<and> plain_expr r)"
| "plain_expr (UnaryOp op e) = plain_expr e"
| "plain_expr (Compare l op r) = (plain_expr l \<and> plain_expr r)"
| "plain_expr (ListExpr es) = plain_exprs es"
| "plain_expr (TupleExpr es) = plain_exprs es"
| "plain_expr (JoinedStr es) = plain_exprs es"
| "plain_expr (FormattedValue e) = plain_expr e"
| "plain_expr (OtherExpr k es) = False"
| "plain_exprs [] = True"
| "plain_exprs (e # es) = (plain_expr e \<and> plain_exprs es)"
| "plain_keywords [] = True"
| "plain_keywords (Keyword k e # kws) = (plain_expr e \<and> plain_keywords kws)"

fun names_only :: "expr list \<Rightarrow> bool" where
  "names_only [] = True"
| "names_only (Name x # ts) = names_only ts"
| "names_only (t # ts) = False"

fun plain_target :: "expr \<Rightarrow> bool" where
  "plain_target (Name x) = True"
| "plain_target (Attribute e a) = plain_expr e"
| "plain_target (TupleExpr ts) = names_only ts"
| "plain_target t = False"

fun plain_aug_target :: "expr \<Rightarrow> bool" where
  "plain_aug_target (Name x) = True"
| "plain_aug_target (Attribute e a) = plain_expr e"
| "plain_aug_target t = False"

fun straight_line_stmt :: "stmt \<Rightarrow> bool" where
  "straight_line_stmt (Import m a) = True"
| "straight_line_stmt (ImportFrom m ns) = True"
| "straight_line_stmt (Assign t e) = (plain_target t \<and> plain_expr e)"
| "straight_line_stmt (AugAssign t op e) = (plain_aug_target t \<and> plain_expr e)"
| "straight_line_stmt (Expr e) = plain_expr e"
| "straight_line_stmt (Magic m) = True"
| "straight_line_stmt (Comment c) = True"
| "straight_line_stmt (OtherStmt k es body) = False"

fun cell_stmts :: "cell \<Rightarrow> stmt list" where
  "cell_stmts (Cell ss semi) = ss"

definition statements :: "notebook \<Rightarrow> stmt list" where
  "statements nb = concat (map cell_stmts nb)"

definition straight_line :: "notebook \<Rightarrow> bool" where
  "straight_line nb = list_all straight_line_stmt (statements nb)"

subsection \<open>Properties of computations\<close>

text \<open>
  A computation is total when it has an outcome from every configuration, and functional
  when it has at most one. A runtime is total when each of its operations has an outcome
  (it terminates, by returning or by raising), and deterministic when each operation has
  at most one outcome for given arguments and world.
\<close>

definition total :: "('a, 'v, 'w, 'e) comp \<Rightarrow> bool" where
  "total m = (\<forall>c. m c \<noteq> {})"

definition total_runtime :: "('v, 'w, 'e) runtime \<Rightarrow> bool" where
  "total_runtime R = (\<forall>op args w. R op args w \<noteq> {})"

definition functional :: "('a, 'v, 'w, 'e) comp \<Rightarrow> bool" where
  "functional m = (\<forall>c x y. x \<in> m c \<longrightarrow> y \<in> m c \<longrightarrow> x = y)"

definition deterministic :: "('v, 'w, 'e) runtime \<Rightarrow> bool" where
  "deterministic R = (\<forall>op args w x y. x \<in> R op args w \<longrightarrow> y \<in> R op args w \<longrightarrow> x = y)"

definition single_result :: "'a set \<Rightarrow> bool" where
  "single_result S = (\<forall>x y. x \<in> S \<longrightarrow> y \<in> S \<longrightarrow> x = y)"






text \<open>
  A computation logs the operations \<open>ops\<close> when every outcome extends the log by new
  events: by the operations \<open>ops\<close>, in this order, when it returns, and by a beginning of
  \<open>ops\<close> that is not empty when it raises. It binds the names \<open>B\<close> when the
  environments it returns bind exactly the names in \<open>B\<close>.
\<close>

fun op_of :: "('v, 'e) event \<Rightarrow> primop" where
  "op_of (Event op args r) = op"

fun logged :: "primop list \<Rightarrow> ('a, 'e) outcome \<Rightarrow> ('v, 'e) event list \<Rightarrow> bool" where
  "logged ops (Returns a) new = (map op_of new = ops)"
| "logged ops (Raises e) new = (new \<noteq> [] \<and> map op_of new = take (length new) ops)"

definition logs :: "primop list \<Rightarrow> ('a, 'v, 'w, 'e) comp \<Rightarrow> bool" where
  "logs ops m =
     (\<forall>w tr r w' tr'. (r, w', tr') \<in> m (w, tr) \<longrightarrow> (\<exists>new. tr' = tr @ new \<and> logged ops r new))"

definition binds :: "string set \<Rightarrow> ('v env, 'v, 'w, 'e) comp \<Rightarrow> bool" where
  "binds B m = (\<forall>c env' c'. (Returns env', c') \<in> m c \<longrightarrow> dom env' = B)"

text \<open>
  A computation that returns environments keeps the name \<open>x\<close> of \<open>env\<close> when every
  environment it returns binds \<open>x\<close> as \<open>env\<close> does.
\<close>

definition keeps :: "string \<Rightarrow> 'v env \<Rightarrow> ('v env, 'v, 'w, 'e) comp \<Rightarrow> bool" where
  "keeps x env m = (\<forall>c env' c'. (Returns env', c') \<in> m c \<longrightarrow> env' x = env x)"

text \<open>
  A runtime in which the file of instrument response functions is missing: the call of
  \<open>load_cta_irfs\<close> raises, every other operation returns. Values are strings: an
  attribute is its name, everything else is \<open>object\<close>.
\<close>

definition missing_file :: "(string, unit, string) runtime" where
  "missing_file op args w =
     (case op of
        GetAttr a \<Rightarrow> {(Returns a, w)}
      | CallFunction n ks \<Rightarrow>
          (if take 1 args = [''load_cta_irfs''] then {(Raises ''FileNotFoundError'', w)}
           else {(Returns ''object'', w)})
      | _ \<Rightarrow> {(Returns ''object'', w)})"

text \<open>
  The names that the containment-correction cell of cta\_sensitivity reads, each bound to
  a value that says what it is.
\<close>

definition names_before_correction :: "string env" where
  "names_before_correction =
     map_of [(''u'', ''astropy.units''), (''np'', ''numpy''), (''region'', ''the region''),
       (''e_reco'', ''the reco axis''), (''e_true'', ''the true axis''),
       (''obs'', ''the observation''), (''dataset'', ''the dataset'')]"

section \<open>Reading the notebooks\<close>

text \<open>
  Facts about the text of a notebook: which expressions it evaluates and in which order,
  which functions it calls, which operators it applies itself, which files it names.
  \<open>subexprs e\<close> lists the subexpressions of \<open>e\<close> in the order in which their values
  become available, \<open>e\<close> itself last.
\<close>

fun subexprs :: "expr \<Rightarrow> expr list"
and subexprs_list :: "expr list \<Rightarrow> expr list"
and subexprs_keywords :: "keyword list \<Rightarrow> expr list" where
  "subexprs (Name x) = [Name x]"
| "subexprs (Constant k) = [Constant k]"
| "subexprs (Attribute e a) = subexprs e @ [Attribute e a]"
| "subexprs (Subscript e i) = subexprs e @ subexprs i @ [Subscript e i]"
| "subexprs (Call f args kws) =
     subexprs f @ subexprs_list args @ subexprs_keywords kws @ [Call f args kws]"
| "subexprs (BinOp l op r) = subexprs l @ subexprs r @ [BinOp l op r]"
| "subexprs (UnaryOp op e) = subexprs e @ [UnaryOp op e]"
| "subexprs (Compare l op r) = subexprs l @ subexprs r @ [Compare l op r]"
| "subexprs (ListExpr es) = subexprs_list es @ [ListExpr es]"
| "subexprs (TupleExpr es) = subexprs_list es @ [TupleExpr es]"
| "subexprs (JoinedStr es) = subexprs_list es @ [JoinedStr es]"
| "subexprs (FormattedValue e) = subexprs e @ [FormattedValue e]"
| "subexprs (OtherExpr k es) = subexprs_list es @ [OtherExpr k es]"
| "subexprs_list [] = []"
| "subexprs_list (e # es) = subexprs e @ subexprs_list es"
| "subexprs_keywords [] = []"
| "subexprs_keywords (Keyword k e # kws) = subexprs e @ subexprs_keywords kws"

fun target_exprs :: "expr \<Rightarrow> expr list" where
  "target_exprs (Attribute e a) = subexprs e"
| "target_exprs (Subscript e i) = subexprs e @ subexprs i"
| "target_exprs t = []"

fun stmt_exprs :: "stmt \<Rightarrow> expr list" where
  "stmt_exprs (Assign t e) = subexprs e @ target_exprs t"
| "stmt_exprs (AugAssign t op e) = subexprs t @ subexprs e"
| "stmt_exprs (Expr e) = subexprs e"
| "stmt_exprs (OtherStmt k es body) = subexprs_list es @ concat (map stmt_exprs body)"
| "stmt_exprs s = []"

definition expressions :: "notebook \<Rightarrow> expr list" where
  "expressions nb = concat (map stmt_exprs (statements nb))"

fun is_call :: "expr \<Rightarrow> bool" where
  "is_call (Call f args kws) = True"
| "is_call e = False"

definition calls :: "notebook \<Rightarrow> expr list" where
  "calls nb = filter is_call (expressions nb)"

fun callee_name :: "expr \<Rightarrow> string" where
  "callee_name (Call (Name f) args kws) = f"
| "callee_name (Call (Attribute e a) args kws) = a"
| "callee_name e = []"

fun root_name :: "expr \<Rightarrow> string" where
  "root_name (Name x) = x"
| "root_name (Attribute e a) = root_name e"
| "root_name (Subscript e i) = root_name e"
| "root_name (Call f args kws) = root_name f"
| "root_name e = []"

text \<open>
  The operators a notebook applies itself, as the operations it asks of the runtime:
  binary and unary operators, comparisons and in-place operators. These are the places
  where the notebook, and not a function of a library, decides what is computed.
\<close>

fun expr_operators :: "expr \<Rightarrow> primop list" where
  "expr_operators (BinOp l op r) = [Binary op]"
| "expr_operators (UnaryOp op e) = [Unary op]"
| "expr_operators (Compare l op r) = [CompareOp op]"
| "expr_operators e = []"

fun stmt_operators :: "stmt \<Rightarrow> primop list" where
  "stmt_operators (AugAssign t op e) =
     concat (map expr_operators (stmt_exprs (AugAssign t op e))) @ [Inplace op]"
| "stmt_operators s = concat (map expr_operators (stmt_exprs s))"

definition operators :: "notebook \<Rightarrow> primop list" where
  "operators nb = concat (map stmt_operators (statements nb))"

definition delegates_all :: "notebook \<Rightarrow> bool" where
  "delegates_all nb = (operators nb = [])"

text \<open>
  Files. A call reads a FITS file when its first positional argument is a string constant
  that ends in \<open>.fits\<close> or \<open>.fits.gz\<close>. \<open>path_strings\<close> are the string constants with
  a slash, \<open>attribute_names\<close> all attribute names the notebook loads or stores.
\<close>

definition ends_with :: "string \<Rightarrow> string \<Rightarrow> bool" where
  "ends_with suffix s = (length suffix \<le> length s \<and> drop (length s - length suffix) s = suffix)"

definition is_fits_path :: "string \<Rightarrow> bool" where
  "is_fits_path s = (ends_with ''.fits'' s \<or> ends_with ''.fits.gz'' s)"

fun fits_read :: "expr \<Rightarrow> (string \<times> string) option" where
  "fits_read (Call f (Constant (PyStr s) # args) kws) =
     (if is_fits_path s then Some (callee_name (Call f (Constant (PyStr s) # args) kws), s) else None)"
| "fits_read e = None"

definition file_reads :: "notebook \<Rightarrow> (string \<times> string) list" where
  "file_reads nb = List.map_filter fits_read (calls nb)"

fun attribute_of :: "expr \<Rightarrow> string list" where
  "attribute_of (Attribute e a) = [a]"
| "attribute_of e = []"

fun stmt_targets :: "stmt \<Rightarrow> expr list" where
  "stmt_targets (Assign t e) = [t]"
| "stmt_targets (AugAssign t op e) = [t]"
| "stmt_targets s = []"

definition targets :: "stmt list \<Rightarrow> expr list" where
  "targets ss = concat (map stmt_targets ss)"

definition attribute_names :: "notebook \<Rightarrow> string list" where
  "attribute_names nb =
     remdups (concat (map attribute_of (expressions nb @ targets (statements nb))))"

fun string_of :: "expr \<Rightarrow> string list" where
  "string_of (Constant (PyStr s)) = [s]"
| "string_of e = []"

definition string_constants :: "notebook \<Rightarrow> string list" where
  "string_constants nb = concat (map string_of (expressions nb))"

definition path_strings :: "notebook \<Rightarrow> string list" where
  "path_strings nb = filter (\<lambda>s. CHR ''/'' \<in> set s) (string_constants nb)"

text \<open>
  Estimators. The estimator classes of a notebook are the names it imports from
  \<open>gammapy.estimators\<close>; its estimator objects are the variables assigned from a call
  of such a class, and an estimator run is a call of the method \<open>run\<close> of such a
  variable.
\<close>

fun imports_from :: "string \<Rightarrow> stmt \<Rightarrow> string list" where
  "imports_from m (ImportFrom m' ns) = (if m' = m then ns else [])"
| "imports_from m s = []"

definition imported_from :: "string \<Rightarrow> notebook \<Rightarrow> string list" where
  "imported_from m nb = concat (map (imports_from m) (statements nb))"

fun constructed :: "string list \<Rightarrow> stmt \<Rightarrow> string list" where
  "constructed classes (Assign (Name x) (Call (Name c) args kws)) =
     (if c \<in> set classes then [x] else [])"
| "constructed classes s = []"

definition estimator_objects :: "notebook \<Rightarrow> string list" where
  "estimator_objects nb =
     concat (map (constructed (imported_from ''gammapy.estimators'' nb)) (statements nb))"

fun run_of :: "string list \<Rightarrow> expr \<Rightarrow> bool" where
  "run_of objs (Call (Attribute (Name x) a) args kws) = (a = ''run'' \<and> x \<in> set objs)"
| "run_of objs e = False"

definition estimator_runs :: "notebook \<Rightarrow> expr list" where
  "estimator_runs nb = filter (run_of (estimator_objects nb)) (calls nb)"

text \<open>
  The stages of an analysis. A call belongs to the stage \<open>Read\<close> when it reads a FITS
  file, to \<open>Construct\<close> when it calls a class imported from \<open>gammapy.datasets\<close> or
  one of its methods, to \<open>Estimate\<close> when it runs an estimator object, and to
  \<open>Inspect\<close> when it calls \<open>matplotlib.pyplot\<close> or a method \<open>plot\<close>. The stage
  sequence of a notebook lists the stages of its calls in the order of execution.
\<close>

datatype stage = Read | Construct | Estimate | Inspect

definition stage_of :: "notebook \<Rightarrow> expr \<Rightarrow> stage option" where
  "stage_of nb e =
     (if fits_read e \<noteq> None then Some Read
      else if root_name e \<in> set (imported_from ''gammapy.datasets'' nb) then Some Construct
      else if run_of (estimator_objects nb) e then Some Estimate
      else if root_name e = ''plt'' \<or> callee_name e = ''plot'' then Some Inspect
      else None)"

definition stage_sequence :: "notebook \<Rightarrow> stage list" where
  "stage_sequence nb = List.map_filter (stage_of nb) (calls nb)"

definition chain_of_single_calls :: "notebook \<Rightarrow> bool" where
  "chain_of_single_calls nb =
     (stage_sequence nb = [Read, Construct, Estimate, Inspect] \<or>
      stage_sequence nb = [Read, Construct, Estimate, Estimate, Inspect])"

text \<open>The values assigned to a name, and the keyword arguments of the calls of a function.\<close>

fun assigned_to :: "string \<Rightarrow> stmt \<Rightarrow> expr list" where
  "assigned_to x (Assign (Name y) e) = (if y = x then [e] else [])"
| "assigned_to x s = []"

definition assigned_values :: "string \<Rightarrow> notebook \<Rightarrow> expr list" where
  "assigned_values x nb = concat (map (assigned_to x) (statements nb))"

fun keywords_of :: "string \<Rightarrow> expr \<Rightarrow> keyword list" where
  "keywords_of f (Call g args kws) =
     (if callee_name (Call g args kws) = f then kws else [])"
| "keywords_of f e = []"

definition call_keywords :: "string \<Rightarrow> notebook \<Rightarrow> keyword list" where
  "call_keywords f nb = concat (map (keywords_of f) (calls nb))"

text \<open>The functions and methods a notebook calls, by name, in the order of their first call.\<close>

definition called_names :: "notebook \<Rightarrow> string list" where
  "called_names nb = rev (remdups (rev (map callee_name (calls nb))))"

text \<open>The names that statements bind: the names they import or assign to.\<close>

fun target_names :: "expr \<Rightarrow> string list" where
  "target_names (Name x) = [x]"
| "target_names (TupleExpr ts) = concat (map target_names ts)"
| "target_names t = []"

fun stmt_binds :: "stmt \<Rightarrow> string list" where
  "stmt_binds (Import m a) = [a]"
| "stmt_binds (ImportFrom m ns) = ns"
| "stmt_binds (Assign t e) = target_names t"
| "stmt_binds (AugAssign t op e) = target_names t"
| "stmt_binds s = []"

definition bound_names :: "stmt list \<Rightarrow> string list" where
  "bound_names ss = concat (map stmt_binds ss)"

text \<open>
  The operations that a notebook asks of the runtime, in the order in which a run asks
  them: what the execution model does, read off the text. A name is looked up in the
  runtime only when no statement before has bound it, so the names bound so far are
  carried along.
\<close>

fun expr_ops :: "string set \<Rightarrow> expr \<Rightarrow> primop list"
and exprs_ops :: "string set \<Rightarrow> expr list \<Rightarrow> primop list"
and keywords_ops :: "string set \<Rightarrow> keyword list \<Rightarrow> primop list" where
  "expr_ops B (Name x) = (if x \<in> B then [] else [LoadBuiltin x])"
| "expr_ops B (Constant k) = [LoadConst k]"
| "expr_ops B (Attribute e a) = expr_ops B e @ [GetAttr a]"
| "expr_ops B (Subscript e i) = expr_ops B e @ expr_ops B i @ [GetItem]"
| "expr_ops B (Call f args kws) =
     expr_ops B f @ exprs_ops B args @ keywords_ops B kws @
     [CallFunction (length args) (map keyword_name kws)]"
| "expr_ops B (BinOp l op r) = expr_ops B l @ expr_ops B r @ [Binary op]"
| "expr_ops B (UnaryOp op e) = expr_ops B e @ [Unary op]"
| "expr_ops B (Compare l op r) = expr_ops B l @ expr_ops B r @ [CompareOp op]"
| "expr_ops B (ListExpr es) = exprs_ops B es @ [BuildList]"
| "expr_ops B (TupleExpr es) = exprs_ops B es @ [BuildTuple]"
| "expr_ops B (JoinedStr es) = exprs_ops B es @ [BuildString]"
| "expr_ops B (FormattedValue e) = expr_ops B e @ [FormatValue]"
| "expr_ops B (OtherExpr k es) = []"
| "exprs_ops B [] = []"
| "exprs_ops B (e # es) = expr_ops B e @ exprs_ops B es"
| "keywords_ops B [] = []"
| "keywords_ops B (Keyword k e # kws) = expr_ops B e @ keywords_ops B kws"

fun unpack_ops :: "nat \<Rightarrow> nat \<Rightarrow> expr list \<Rightarrow> primop list" where
  "unpack_ops n i [] = []"
| "unpack_ops n i (t # ts) = UnpackItem n i # unpack_ops n (Suc i) ts"

fun target_ops :: "string set \<Rightarrow> expr \<Rightarrow> primop list" where
  "target_ops B (Attribute e a) = expr_ops B e @ [SetAttr a]"
| "target_ops B (TupleExpr ts) = unpack_ops (length ts) 0 ts"
| "target_ops B t = []"

fun stmt_ops :: "string set \<Rightarrow> stmt \<Rightarrow> primop list" where
  "stmt_ops B (Import m a) = [ImportModule m]"
| "stmt_ops B (ImportFrom m ns) = ImportModule m # map GetAttr ns"
| "stmt_ops B (Assign t e) = expr_ops B e @ target_ops B t"
| "stmt_ops B (AugAssign (Name x) op e) = expr_ops B (Name x) @ expr_ops B e @ [Inplace op]"
| "stmt_ops B (AugAssign (Attribute t a) op e) =
     expr_ops B t @ [GetAttr a] @ expr_ops B e @ [Inplace op, SetAttr a]"
| "stmt_ops B (AugAssign t op e) = []"
| "stmt_ops B (Expr e) = expr_ops B e"
| "stmt_ops B (Magic m) = [RunMagic m]"
| "stmt_ops B (Comment c) = []"
| "stmt_ops B (OtherStmt k es body) = []"

fun stmts_ops :: "string set \<Rightarrow> stmt list \<Rightarrow> primop list" where
  "stmts_ops B [] = []"
| "stmts_ops B (s # ss) = stmt_ops B s @ stmts_ops (B \<union> set (stmt_binds s)) ss"

fun cell_ops :: "string set \<Rightarrow> cell \<Rightarrow> primop list" where
  "cell_ops B (Cell ss semi) =
     (case displayed (Cell ss semi) of
        None \<Rightarrow> stmts_ops B ss
      | Some e \<Rightarrow>
          stmts_ops B (butlast ss) @ expr_ops (B \<union> set (bound_names (butlast ss))) e @ [Display])"

fun cells_ops :: "string set \<Rightarrow> notebook \<Rightarrow> primop list" where
  "cells_ops B [] = []"
| "cells_ops B (c # cs) = cell_ops B c @ cells_ops (B \<union> set (bound_names (cell_stmts c))) cs"

definition operations :: "notebook \<Rightarrow> primop list" where
  "operations nb = cells_ops {} nb"

fun is_operator :: "primop \<Rightarrow> bool" where
  "is_operator (Binary op) = True"
| "is_operator (Inplace op) = True"
| "is_operator (Unary op) = True"
| "is_operator (CompareOp op) = True"
| "is_operator op = False"

section \<open>The arithmetic of the notebooks\<close>

text \<open>
  Two cells compute with arrays: the containment correction of cta\_sensitivity and the
  safe-data mask of detect. Here the operators are given their meaning: numpy's
  element-wise arithmetic and broadcasting, astropy's conversion of an angle in degrees
  before a cosine is taken. Numbers are real numbers, so the rounding of floating-point
  arithmetic is not modelled. What gammapy computes (the centres of an energy axis, the
  containment radius of a point spread function) stays a parameter.
\<close>

datatype 'e py_error = ValueError | IndexError | LibraryError 'e

subsection \<open>The containment correction\<close>

text \<open>
  The dataset made by \<open>SpectrumDatasetMaker\<close> holds the effective area
  (\<open>dataset.aeff.data.data\<close>, one value per bin of true energy), the background
  (\<open>dataset.background.data\<close>, of shape \<open>(n, 1, 1)\<close>: one value per bin of
  reconstructed energy) and the energy dispersion. Loading these attributes gives the
  arrays that the dataset holds, not copies, so that an in-place product changes the
  dataset. The state of the notebook when the cell starts: the radius of the region in
  degrees, the two energy axes, the observation and the dataset; \<open>containment\<close>,
  \<open>on_radii\<close> and \<open>factor\<close> are the names the cell binds.
\<close>

record 'x spectrum_dataset =
  aeff :: "real list"
  background :: "real list"
  edisp :: 'x

record ('ax, 'obs, 'x) cta_state =
  region_radius :: real
  e_reco :: 'ax
  e_true :: 'ax
  obs :: 'obs
  dataset :: "'x spectrum_dataset"
  containment :: "real option"
  on_radii :: "real list option"
  factor :: "real list option"

text \<open>
  \<open>center\<close> is \<open>e_reco.center\<close>. \<open>containment_radius ob energy theta fraction\<close> is
  \<open>ob.psf.containment_radius(energy=..., theta=..., fraction=...)\<close>, with \<open>theta\<close> in
  degrees: a table of radii in degrees with one row per offset and one column per
  energy, or an exception. Both only read their arguments.
\<close>

record ('ax, 'obs, 'e) cta_library =
  center :: "'ax \<Rightarrow> real list"
  containment_radius :: "'obs \<Rightarrow> real list \<Rightarrow> real \<Rightarrow> real \<Rightarrow> 'e + real list list"

text \<open>
  \<open>np.cos\<close> of an angle given in degrees. \<open>xs *= c\<close> for a number \<open>c\<close>. \<open>xs *=
  f.reshape((-1, 1, 1))\<close> for \<open>xs\<close> of shape \<open>(n, 1, 1)\<close>: element by element when \<open>f\<close>
  has \<open>n\<close> elements, by the one element when it has one, and a \<open>ValueError\<close>
  otherwise. \<open>rows[0]\<close>.
\<close>

definition cos_deg :: "real \<Rightarrow> real" where
  "cos_deg a = cos (a * pi / 180)"

definition imul_scalar :: "real list \<Rightarrow> real \<Rightarrow> real list" where
  "imul_scalar xs c = map (\<lambda>x. x * c) xs"

definition imul_column :: "real list \<Rightarrow> real list \<Rightarrow> 'e py_error + real list" where
  "imul_column xs f =
     (if length f = length xs then Inr (map (\<lambda>(x, y). x * y) (zip xs f))
      else if length f = 1 then Inr (map (\<lambda>x. x * hd f) xs)
      else Inl ValueError)"

definition first_row :: "'a list \<Rightarrow> 'e py_error + 'a" where
  "first_row rows = (case rows of [] \<Rightarrow> Inl IndexError | r # rest \<Rightarrow> Inr r)"

text \<open>\<open>(1 - np.cos(on_radii)) / (1 - np.cos(region.radius))\<close>, source line 145.\<close>

definition solid_angle_ratio :: "real \<Rightarrow> real list \<Rightarrow> real list" where
  "solid_angle_ratio radius radii = map (\<lambda>r. (1 - cos_deg r) / (1 - cos_deg radius)) radii"

text \<open>
  The cell, source lines 136-146, statement by statement. An exception leaves the state
  as the statements before it made it.
\<close>

definition containment_correction ::
  "('ax, 'obs, 'e) cta_library \<Rightarrow> ('ax, 'obs, 'x) cta_state \<Rightarrow>
   ('e py_error \<times> ('ax, 'obs, 'x) cta_state) + ('ax, 'obs, 'x) cta_state" where
  "containment_correction L s =
     (let c = 0.68;
          s1 = s\<lparr>containment := Some c\<rparr>;
          s2 = s1\<lparr>dataset := (dataset s1)\<lparr>aeff := imul_scalar (aeff (dataset s1)) c\<rparr>\<rparr>
      in case containment_radius L (obs s2) (center L (e_reco s2)) 0.5 c of
           Inl e \<Rightarrow> Inl (LibraryError e, s2)
         | Inr rows \<Rightarrow>
             (case first_row rows of
                Inl e \<Rightarrow> Inl (e, s2)
              | Inr radii \<Rightarrow>
                  (let s3 = s2\<lparr>on_radii := Some radii\<rparr>;
                       f = solid_angle_ratio (region_radius s3) radii;
                       s4 = s3\<lparr>factor := Some f\<rparr>
                   in case imul_column (background (dataset s4)) f of
                        Inl e \<Rightarrow> Inl (e, s4)
                      | Inr b \<Rightarrow> Inr (s4\<lparr>dataset := (dataset s4)\<lparr>background := b\<rparr>\<rparr>))))"

text \<open>
  The state in which the cell starts: the region has the radius of 0.1 degrees given in
  source line 78; the axes, the observation and the dataset are what the library
  returned in source lines 80-120.
\<close>

definition before_correction ::
  "'ax \<Rightarrow> 'ax \<Rightarrow> 'obs \<Rightarrow> 'x spectrum_dataset \<Rightarrow> ('ax, 'obs, 'x) cta_state" where
  "before_correction reco tru ob ds =
     \<lparr>region_radius = 0.1, e_reco = reco, e_true = tru, obs = ob, dataset = ds,
      containment = None, on_radii = None, factor = None\<rparr>"

text \<open>
  A library for examples: an axis is the list of its centres, and the point spread
  function has a containment radius of 60 degrees at every energy.
\<close>

definition wide_psf :: "(real list, unit, unit) cta_library" where
  "wide_psf = \<lparr>center = (\<lambda>ax. ax), containment_radius = (\<lambda>ob en th fr. Inr [map (\<lambda>x. 60) en])\<rparr>"

definition example_dataset :: "unit spectrum_dataset" where
  "example_dataset = \<lparr>aeff = [100, 200, 300], background = [10, 20], edisp = ()\<rparr>"

subsection \<open>The safe-data mask\<close>

text \<open>
  An array is its shape and its elements in row-major order; a map of gammapy is its
  geometry and its data. \<open>np.ones_like(a)\<close> has the shape of \<open>a\<close> and the value one
  everywhere; \<open>a.astype("bool")\<close> is true where \<open>a\<close> is not zero. \<open>m.copy(data=d)\<close>
  is a map with the geometry of \<open>m\<close> and the data \<open>d\<close>; gammapy refuses data whose
  shape is not that of the geometry.
\<close>

record 'a ndarray =
  shape :: "nat list"
  flat :: "'a list"

record ('g, 'a) sky_map =
  geom :: 'g
  data :: "'a ndarray"

definition ones_like :: "real ndarray \<Rightarrow> real ndarray" where
  "ones_like a = \<lparr>shape = shape a, flat = map (\<lambda>x. 1) (flat a)\<rparr>"

definition astype_bool :: "real ndarray \<Rightarrow> bool ndarray" where
  "astype_bool a = \<lparr>shape = shape a, flat = map (\<lambda>x. x \<noteq> 0) (flat a)\<rparr>"

definition copy_with_data :: "('g, 'a) sky_map \<Rightarrow> 'b ndarray \<Rightarrow> 'e py_error + ('g, 'b) sky_map" where
  "copy_with_data m d =
     (if shape d = shape (data m) then Inr \<lparr>geom = geom m, data = d\<rparr> else Inl ValueError)"

text \<open>\<open>counts.copy(data=np.ones_like(counts.data).astype("bool"))\<close>, source line 102.\<close>

definition mask_safe :: "('g, real) sky_map \<Rightarrow> 'e py_error + ('g, bool) sky_map" where
  "mask_safe counts = copy_with_data counts (astype_bool (ones_like (data counts)))"

text \<open>The elements of an array that a mask keeps: \<open>a[keep]\<close>.\<close>

definition masked :: "bool list \<Rightarrow> 'a list \<Rightarrow> 'a list" where
  "masked keep xs = map fst (filter snd (zip xs keep))"

section \<open>Properties of the execution model\<close>

lemmas nb_defs = cta_sensitivity_def cta_setup_def cta_imports_def cta_region_def cta_irfs_def
  cta_maker_def cta_containment_def cta_on_off_def cta_estimate_def cta_show_def cta_save_def
  cta_plot_def cta_control_def detect_def detect_setup_def detect_read_def detect_smooth_def
  detect_model_def detect_ts_def detect_plot_sqrt_ts_def detect_plot_flux_def
  detect_plot_niter_def detect_peaks_def detect_plot_sources_def detect_empty_def

lemma straight_line_cta_sensitivity: "straight_line cta_sensitivity"
  by code_simp

lemma straight_line_detect: "straight_line detect"
  by code_simp

subsection \<open>An outcome from every configuration\<close>

lemma total_ret: "total (ret a)"
  by (simp add: total_def ret_def)

lemma total_prim: "total_runtime R \<Longrightarrow> total (prim R op args)"
  by (auto simp: total_def total_runtime_def prim_def)

lemma total_bind: "total m \<Longrightarrow> (\<And>a. total (f a)) \<Longrightarrow> total (bind m f)"
proof -
  assume m: "total m" and f: "\<And>a. total (f a)"
  show "total (bind m f)"
    unfolding total_def
  proof
    fix c
    from m obtain r c' where rc: "(r, c') \<in> m c"
      unfolding total_def by (metis ex_in_conv surj_pair)
    have "after (r, c') f \<noteq> {}"
    proof (cases r)
      case (Returns a)
      with f [of a] show ?thesis by (cases c') (simp add: after_def total_def)
    next
      case (Raises e)
      then show ?thesis by (simp add: after_def)
    qed
    with rc show "bind m f c \<noteq> {}"
      unfolding bind_def by blast
  qed
qed

lemma total_eval:
  "total_runtime R \<Longrightarrow> plain_expr e \<Longrightarrow> total (eval R env e)"
  "total_runtime R \<Longrightarrow> plain_exprs es \<Longrightarrow> total (evals R env es)"
  "total_runtime R \<Longrightarrow> plain_keywords kws \<Longrightarrow> total (eval_keywords R env kws)"
proof (induction R env e and R env es and R env kws rule: eval_evals_eval_keywords.induct)
  case (1 R env x)
  then show ?case by (simp add: total_ret total_prim split: option.split)
qed (simp_all add: total_ret total_prim total_bind)

lemma total_unpack_to:
  "total_runtime R \<Longrightarrow> names_only ts \<Longrightarrow> total (unpack_to R v n i ts env)"
proof (induction ts arbitrary: i env)
  case Nil
  then show ?case by (simp add: total_ret)
next
  case (Cons t ts)
  then show ?case by (cases t) (simp_all add: total_ret total_prim total_bind)
qed

lemma total_assign:
  "total_runtime R \<Longrightarrow> plain_target t \<Longrightarrow> total (assign R env t v)"
  by (cases t) (simp_all add: total_ret total_prim total_bind total_eval total_unpack_to)

lemma total_import_from: "total_runtime R \<Longrightarrow> total (import_from R m ns env)"
  by (induction ns arbitrary: env) (simp_all add: total_ret total_prim total_bind)

lemma total_exec_stmt:
  "total_runtime R \<Longrightarrow> straight_line_stmt s \<Longrightarrow> total (exec_stmt R s env)"
proof (cases s)
  case (AugAssign t op e)
  assume "total_runtime R" "straight_line_stmt s"
  with AugAssign show ?thesis
    by (cases t) (simp_all add: total_ret total_prim total_bind total_eval split: option.split)
qed (simp_all add: total_ret total_prim total_bind total_eval total_assign total_import_from)

lemma total_exec_stmts:
  "total_runtime R \<Longrightarrow> list_all straight_line_stmt ss \<Longrightarrow> total (exec_stmts R ss env)"
  by (induction ss arbitrary: env) (simp_all add: total_ret total_bind total_exec_stmt)


lemma displayed_SomeD:
  "displayed (Cell ss semi) = Some e \<Longrightarrow> ss \<noteq> [] \<and> last ss = Expr e"
  by (auto split: if_splits stmt.splits)

lemma list_all_butlast: "list_all P xs \<Longrightarrow> list_all P (butlast xs)"
  by (auto simp: list_all_iff dest: in_set_butlastD)

lemma total_exec_cell:
  assumes R: "total_runtime R" and sl: "list_all straight_line_stmt (cell_stmts c)"
  shows "total (exec_cell R c env)"
proof (cases c)
  case (Cell ss semi)
  show ?thesis
  proof (cases "displayed (Cell ss semi)")
    case None
    with Cell R sl show ?thesis by (simp add: total_exec_stmts)
  next
    case (Some e)
    from displayed_SomeD [OF Some] have ne: "ss \<noteq> []" and l: "last ss = Expr e" by simp_all
    from sl Cell ne have "straight_line_stmt (last ss)" by (simp add: list_all_iff)
    with l have pe: "plain_expr e" by simp
    from sl Cell have "list_all straight_line_stmt (butlast ss)"
      by (simp add: list_all_butlast)
    with Cell Some R pe show ?thesis
      by (simp add: total_bind total_exec_stmts total_eval total_prim total_ret)
  qed
qed

lemma total_exec_cells:
  "total_runtime R \<Longrightarrow> list_all straight_line_stmt (concat (map cell_stmts nb)) \<Longrightarrow>
   total (exec_cells R nb env)"
  by (induction nb arbitrary: env) (simp_all add: total_ret total_bind total_exec_cell)

lemma straight_line_drop:
  assumes "straight_line nb"
  shows "list_all straight_line_stmt (concat (map cell_stmts (drop k nb)))"
proof -
  from assms have "\<forall>cl \<in> set nb. list_all straight_line_stmt (cell_stmts cl)"
    by (auto simp: straight_line_def statements_def list_all_iff)
  then have "\<forall>cl \<in> set (drop k nb). list_all straight_line_stmt (cell_stmts cl)"
    by (auto dest: in_set_dropD)
  then show ?thesis by (auto simp: list_all_iff)
qed

lemma rest_nonempty:
  "total_runtime R \<Longrightarrow> straight_line nb \<Longrightarrow> exec_cells R (drop k nb) env c \<noteq> {}"
  using total_exec_cells [of R "drop k nb" env] straight_line_drop [of nb k]
  unfolding total_def by blast

lemma run_nonempty:
  "total_runtime R \<Longrightarrow> straight_line nb \<Longrightarrow> run R nb w \<noteq> {}"
  using total_exec_cells [of R nb Map.empty]
  by (simp add: run_def straight_line_def statements_def total_def)

subsection \<open>At most one outcome\<close>

lemma functional_ret: "functional (ret a)"
  by (simp add: functional_def ret_def)

lemma functional_stuck: "functional stuck"
  by (simp add: functional_def stuck_def)

lemma functional_prim: "deterministic R \<Longrightarrow> functional (prim R op args)"
  unfolding functional_def deterministic_def prim_def by fastforce

lemma functional_bind:
  assumes m: "functional m" and f: "\<And>a. functional (f a)"
  shows "functional (bind m f)"
  unfolding functional_def
proof (intro allI impI)
  fix c x y
  assume "x \<in> bind m f c" and "y \<in> bind m f c"
  then obtain p q where p: "p \<in> m c" "x \<in> after p f" and q: "q \<in> m c" "y \<in> after q f"
    by (auto simp: bind_def)
  from m p(1) q(1) have pq: "q = p" unfolding functional_def by blast
  obtain r c' where rc: "p = (r, c')" by (cases p)
  show "x = y"
  proof (cases r)
    case (Returns a)
    with p(2) q(2) pq rc have "x \<in> f a c'" "y \<in> f a c'" by (simp_all add: after_def)
    with f [of a] show ?thesis unfolding functional_def by blast
  next
    case (Raises e)
    with p(2) q(2) pq rc show ?thesis by (simp add: after_def)
  qed
qed

lemmas functional_intros = functional_ret functional_stuck functional_prim functional_bind

lemma functional_eval:
  "deterministic R \<Longrightarrow> functional (eval R env e)"
  "deterministic R \<Longrightarrow> functional (evals R env es)"
  "deterministic R \<Longrightarrow> functional (eval_keywords R env kws)"
proof (induction R env e and R env es and R env kws rule: eval_evals_eval_keywords.induct)
  case (1 R env x)
  then show ?case by (simp add: functional_intros split: option.split)
qed (simp_all add: functional_intros)

lemma functional_unpack_to: "deterministic R \<Longrightarrow> functional (unpack_to R v n i ts env)"
proof (induction ts arbitrary: i env)
  case Nil
  then show ?case by (simp add: functional_intros)
next
  case (Cons t ts)
  then show ?case by (cases t) (simp_all add: functional_intros)
qed

lemma functional_assign: "deterministic R \<Longrightarrow> functional (assign R env t v)"
  by (cases t) (simp_all add: functional_intros functional_eval functional_unpack_to)

lemma functional_import_from: "deterministic R \<Longrightarrow> functional (import_from R m ns env)"
  by (induction ns arbitrary: env) (simp_all add: functional_intros)

lemma functional_exec_stmt: "deterministic R \<Longrightarrow> functional (exec_stmt R s env)"
proof (cases s)
  case (AugAssign t op e)
  assume "deterministic R"
  with AugAssign show ?thesis
    by (cases t) (simp_all add: functional_intros functional_eval split: option.split)
qed (simp_all add: functional_intros functional_eval functional_assign functional_import_from)

lemma functional_exec_stmts: "deterministic R \<Longrightarrow> functional (exec_stmts R ss env)"
  by (induction ss arbitrary: env) (simp_all add: functional_intros functional_exec_stmt)

lemma functional_exec_cell: "deterministic R \<Longrightarrow> functional (exec_cell R c env)"
  by (cases c)
     (simp add: functional_intros functional_exec_stmts functional_eval split: option.split)

lemma functional_exec_cells: "deterministic R \<Longrightarrow> functional (exec_cells R nb env)"
  by (induction nb arbitrary: env) (simp_all add: functional_intros functional_exec_cell)


subsection \<open>Exceptions are never handled\<close>















lemma single_result_run: "deterministic R \<Longrightarrow> single_result (run R nb w)"
  using functional_exec_cells [of R nb Map.empty]
  unfolding functional_def single_result_def run_def by blast

subsection \<open>Names that a run leaves alone\<close>

lemma keeps_ret: "env1 x = env x \<Longrightarrow> keeps x env (ret env1)"
  by (simp add: keeps_def ret_def)

lemma keeps_stuck: "keeps x env stuck"
  by (simp add: keeps_def stuck_def)

lemma keeps_bind: "(\<And>a. keeps x env (f a)) \<Longrightarrow> keeps x env (bind m f)"
  unfolding keeps_def bind_def
proof (intro allI impI)
  fix c env' c'
  assume f: "\<And>a. \<forall>c env' c'. (Returns env', c') \<in> f a c \<longrightarrow> env' x = env x"
    and "(Returns env', c') \<in> (\<Union>rc \<in> m c. after rc f)"
  then obtain r c1 where "(r, c1) \<in> m c" and in_after: "(Returns env', c') \<in> after (r, c1) f"
    by auto
  show "env' x = env x"
  proof (cases r)
    case (Returns a)
    with in_after have "(Returns env', c') \<in> f a c1" by (simp add: after_def)
    with f [of a] show ?thesis by blast
  next
    case (Raises e)
    with in_after show ?thesis by (simp add: after_def)
  qed
qed

lemma keeps_trans:
  "keeps x env m \<Longrightarrow> (\<And>env1. env1 x = env x \<Longrightarrow> keeps x env1 (f env1)) \<Longrightarrow>
   keeps x env (bind m f)"
  unfolding keeps_def bind_def
proof (intro allI impI)
  fix c env' c'
  assume m: "\<forall>c env' c'. (Returns env', c') \<in> m c \<longrightarrow> env' x = env x"
    and f: "\<And>env1. env1 x = env x \<Longrightarrow>
      \<forall>c env' c'. (Returns env', c') \<in> f env1 c \<longrightarrow> env' x = env1 x"
    and "(Returns env', c') \<in> (\<Union>rc \<in> m c. after rc f)"
  then obtain r c1 where rc: "(r, c1) \<in> m c" and in_after: "(Returns env', c') \<in> after (r, c1) f"
    by auto
  show "env' x = env x"
  proof (cases r)
    case (Returns env1)
    with rc m have 1: "env1 x = env x" by blast
    from Returns in_after have "(Returns env', c') \<in> f env1 c1" by (simp add: after_def)
    with f [of env1, OF 1] have "env' x = env1 x" by blast
    with 1 show ?thesis by simp
  next
    case (Raises e)
    with in_after show ?thesis by (simp add: after_def)
  qed
qed

lemma keeps_unpack_to:
  "x \<notin> set (concat (map target_names ts)) \<Longrightarrow> env1 x = env x \<Longrightarrow>
   keeps x env (unpack_to R v n i ts env1)"
proof (induction ts arbitrary: i env1)
  case Nil
  then show ?case by (simp add: keeps_ret)
next
  case (Cons t ts)
  then show ?case
    by (cases t) (auto intro!: keeps_bind keeps_stuck Cons.IH)
qed

lemma keeps_assign: "x \<notin> set (target_names t) \<Longrightarrow> keeps x env (assign R env t v)"
  by (cases t) (auto intro!: keeps_bind keeps_stuck keeps_ret keeps_unpack_to)

lemma keeps_import_from:
  "x \<notin> set ns \<Longrightarrow> env1 x = env x \<Longrightarrow> keeps x env (import_from R m ns env1)"
proof (induction ns arbitrary: env1)
  case Nil
  then show ?case by (simp add: keeps_ret)
next
  case (Cons n ns)
  then show ?case by (auto intro!: keeps_bind Cons.IH)
qed

lemma keeps_exec_stmt: "x \<notin> set (stmt_binds s) \<Longrightarrow> keeps x env (exec_stmt R s env)"
proof (cases s)
  case (AugAssign t op e)
  assume "x \<notin> set (stmt_binds s)"
  with AugAssign show ?thesis
    by (cases t) (auto intro!: keeps_bind keeps_stuck keeps_ret)
qed (auto intro!: keeps_bind keeps_stuck keeps_ret keeps_assign keeps_import_from)

lemma keeps_exec_stmts:
  "x \<notin> set (bound_names ss) \<Longrightarrow> env1 x = env x \<Longrightarrow> keeps x env (exec_stmts R ss env1)"
proof (induction ss arbitrary: env1)
  case Nil
  then show ?case by (simp add: keeps_ret)
next
  case (Cons s ss)
  from Cons.prems have s: "x \<notin> set (stmt_binds s)" and ss: "x \<notin> set (bound_names ss)"
    by (simp_all add: bound_names_def)
  have "keeps x env1 (bind (exec_stmt R s env1) (exec_stmts R ss))"
  proof (rule keeps_trans)
    show "keeps x env1 (exec_stmt R s env1)" using s by (rule keeps_exec_stmt)
  next
    fix env2 :: "'a env"
    assume "env2 x = env1 x"
    with Cons.IH [OF ss, of env2] Cons.prems(2)
    have "keeps x env (exec_stmts R ss env2)" by simp
    with \<open>env2 x = env1 x\<close> Cons.prems(2) show "keeps x env2 (exec_stmts R ss env2)"
      by (simp add: keeps_def)
  qed
  with Cons.prems(2) show ?case by (simp add: keeps_def)
qed

lemma bound_names_butlast: "set (bound_names (butlast ss)) \<subseteq> set (bound_names ss)"
  by (auto simp: bound_names_def dest: in_set_butlastD)

lemma keeps_exec_cell:
  assumes "x \<notin> set (bound_names (cell_stmts c))"
  shows "keeps x env (exec_cell R c env)"
proof (cases c)
  case (Cell ss semi)
  with assms have x: "x \<notin> set (bound_names ss)" by simp
  show ?thesis
  proof (cases "displayed (Cell ss semi)")
    case None
    with Cell x show ?thesis by (simp add: keeps_exec_stmts)
  next
    case (Some e)
    from x bound_names_butlast [of ss] have "x \<notin> set (bound_names (butlast ss))" by blast
    then have 1: "keeps x env (exec_stmts R (butlast ss) env)" by (simp add: keeps_exec_stmts)
    have "keeps x env (bind (exec_stmts R (butlast ss) env) (\<lambda>env'.
          bind (eval R env' e) (\<lambda>v. bind (prim R Display [v]) (\<lambda>u. ret env'))))"
      using 1 by (rule keeps_trans) (auto intro!: keeps_bind keeps_ret)
    with Cell Some show ?thesis by simp
  qed
qed

lemma exec_cell_keeps:
  "(Returns env', c') \<in> exec_cell R cl env c \<Longrightarrow> x \<notin> set (bound_names (cell_stmts cl)) \<Longrightarrow>
   env' x = env x"
  using keeps_exec_cell [of x cl env R] unfolding keeps_def by blast

subsection \<open>The operations of a run\<close>

lemma logs_ret: "logs [] (ret a)"
  by (simp add: logs_def ret_def)

lemma logs_stuck: "logs ops stuck"
  by (simp add: logs_def stuck_def)

lemma logs_prim: "logs [op] (prim R op args)"
  unfolding logs_def
proof (intro allI impI)
  fix w tr r w' tr'
  assume "(r, w', tr') \<in> prim R op args (w, tr)"
  then have "tr' = tr @ [Event op args r]" by (auto simp: prim_def)
  moreover have "logged [op] r [Event op args r]" by (cases r) simp_all
  ultimately show "\<exists>new. tr' = tr @ new \<and> logged [op] r new" by blast
qed

lemma logged_prefix: "new \<noteq> [] \<Longrightarrow> map op_of new = take (length new) ops1 \<Longrightarrow>
    map op_of new = take (length new) (ops1 @ ops2)"
proof -
  assume "map op_of new = take (length new) ops1"
  then have "length (map op_of new) = length (take (length new) ops1)" by simp
  then have "length new \<le> length ops1" by simp
  with \<open>map op_of new = take (length new) ops1\<close> show ?thesis by simp
qed

lemma logs_bind_when:
  assumes m: "logs ops1 m"
    and P: "\<And>c a c'. (Returns a, c') \<in> m c \<Longrightarrow> P a"
    and f: "\<And>a. P a \<Longrightarrow> logs ops2 (f a)"
  shows "logs (ops1 @ ops2) (bind m f)"
  unfolding logs_def
proof (intro allI impI)
  fix w tr r w' tr'
  assume "(r, w', tr') \<in> bind m f (w, tr)"
  then obtain r1 w1 tr1 where
    1: "(r1, w1, tr1) \<in> m (w, tr)" and 2: "(r, w', tr') \<in> after (r1, w1, tr1) f"
    by (auto simp: bind_def)
  from m 1 obtain new1 where tr1: "tr1 = tr @ new1" and l1: "logged ops1 r1 new1"
    unfolding logs_def by blast
  show "\<exists>new. tr' = tr @ new \<and> logged (ops1 @ ops2) r new"
  proof (cases r1)
    case (Raises e)
    with 2 have r: "r = Raises e" and "tr' = tr1" by (simp_all add: after_def)
    moreover from l1 Raises have "new1 \<noteq> []" "map op_of new1 = take (length new1) ops1"
      by simp_all
    then have "map op_of new1 = take (length new1) (ops1 @ ops2)" by (rule logged_prefix)
    with \<open>new1 \<noteq> []\<close> r have "logged (ops1 @ ops2) r new1" by simp
    ultimately show ?thesis using tr1 by blast
  next
    case (Returns a)
    with 2 have 3: "(r, w', tr') \<in> f a (w1, tr1)" by (simp add: after_def)
    from Returns 1 have "P a" by (auto intro: P)
    from f [OF this] 3 obtain new2 where tr': "tr' = tr1 @ new2" and l2: "logged ops2 r new2"
      unfolding logs_def by blast
    from Returns l1 have o1: "map op_of new1 = ops1" by simp
    have "logged (ops1 @ ops2) r (new1 @ new2)"
    proof (cases r)
      case (Returns b)
      with l2 o1 show ?thesis by simp
    next
      case (Raises e)
      with l2 have n2: "new2 \<noteq> []" and t2: "map op_of new2 = take (length new2) ops2"
        by simp_all
      from o1 have len: "length ops1 = length new1" by auto
      have "map op_of (new1 @ new2) = take (length (new1 @ new2)) (ops1 @ ops2)"
        using o1 t2 len by simp
      with n2 Raises show ?thesis by simp
    qed
    with tr' tr1 show ?thesis by auto
  qed
qed

lemma logs_bind: "logs ops1 m \<Longrightarrow> (\<And>a. logs ops2 (f a)) \<Longrightarrow> logs (ops1 @ ops2) (bind m f)"
  by (rule logs_bind_when [where P = "\<lambda>a. True"]) simp_all


lemma logs_eval:
  "dom env = B \<Longrightarrow> logs (expr_ops B e) (eval R env e)"
  "dom env = B \<Longrightarrow> logs (exprs_ops B es) (evals R env es)"
  "dom env = B \<Longrightarrow> logs (keywords_ops B kws) (eval_keywords R env kws)"
proof (induction R env e and R env es and R env kws rule: eval_evals_eval_keywords.induct)
  case (1 R env x)
  then show ?case
    using logs_ret [of "the (env x)"] logs_prim [of "LoadBuiltin x" R "[]"]
    by (auto simp: domIff split: option.split)
next
  case (2 R env k)
  show ?case by (simp add: logs_prim)
next
  case (3 R env e a)
  then show ?case using logs_bind [OF _ logs_prim] by simp
next
  case (4 R env e i)
  have "logs (expr_ops B e @ (expr_ops B i @ [GetItem])) (eval R env (Subscript e i))"
    unfolding eval.simps
    by (intro logs_bind logs_prim 4)
  then show ?case by simp
next
  case (5 R env f args kws)
  have "logs (expr_ops B f @ (exprs_ops B args @ (keywords_ops B kws @
      [CallFunction (length args) (map keyword_name kws)]))) (eval R env (Call f args kws))"
    unfolding eval.simps
    by (intro logs_bind logs_prim 5)
  then show ?case by simp
next
  case (6 R env l op r)
  have "logs (expr_ops B l @ (expr_ops B r @ [Binary op])) (eval R env (BinOp l op r))"
    unfolding eval.simps
    by (intro logs_bind logs_prim 6)
  then show ?case by simp
next
  case (7 R env op e)
  then show ?case using logs_bind [OF _ logs_prim] by simp
next
  case (8 R env l op r)
  have "logs (expr_ops B l @ (expr_ops B r @ [CompareOp op])) (eval R env (Compare l op r))"
    unfolding eval.simps
    by (intro logs_bind logs_prim 8)
  then show ?case by simp
next
  case (9 R env es)
  then show ?case using logs_bind [OF _ logs_prim] by simp
next
  case (10 R env es)
  then show ?case using logs_bind [OF _ logs_prim] by simp
next
  case (11 R env es)
  then show ?case using logs_bind [OF _ logs_prim] by simp
next
  case (12 R env e)
  then show ?case using logs_bind [OF _ logs_prim] by simp
next
  case (13 R env k es)
  show ?case by (simp add: logs_stuck)
next
  case (14 R env)
  show ?case by (simp add: logs_ret)
next
  case (15 R env e es)
  have "logs (expr_ops B e @ (exprs_ops B es @ [])) (evals R env (e # es))"
    unfolding evals.simps
    by (intro logs_bind logs_ret 15)
  then show ?case by simp
next
  case (16 R env)
  show ?case by (simp add: logs_ret)
next
  case (17 R env k e kws)
  have "logs (expr_ops B e @ (keywords_ops B kws @ [])) (eval_keywords R env (Keyword k e # kws))"
    unfolding eval_keywords.simps
    by (intro logs_bind logs_ret 17)
  then show ?case by simp
qed


lemma binds_ret: "dom env1 = B \<Longrightarrow> binds B (ret env1)"
  by (simp add: binds_def ret_def)

lemma binds_stuck: "binds B stuck"
  by (simp add: binds_def stuck_def)

lemma binds_bind_when:
  assumes P: "\<And>c a c'. (Returns a, c') \<in> m c \<Longrightarrow> P a"
    and f: "\<And>a. P a \<Longrightarrow> binds B (f a)"
  shows "binds B (bind m f)"
  unfolding binds_def
proof (intro allI impI)
  fix c env' c'
  assume "(Returns env', c') \<in> bind m f c"
  then obtain r c1 where rc: "(r, c1) \<in> m c" and in_after: "(Returns env', c') \<in> after (r, c1) f"
    by (auto simp: bind_def)
  show "dom env' = B"
  proof (cases r)
    case (Returns a)
    with rc have "P a" by (auto intro: P)
    from f [OF this] have "binds B (f a)" .
    moreover from Returns in_after have "(Returns env', c') \<in> f a c1" by (simp add: after_def)
    ultimately show ?thesis unfolding binds_def by blast
  next
    case (Raises e)
    with in_after show ?thesis by (simp add: after_def)
  qed
qed

lemma binds_bind: "(\<And>a. binds B (f a)) \<Longrightarrow> binds B (bind m f)"
  by (rule binds_bind_when [where P = "\<lambda>a. True"]) simp_all

lemma binds_seq:
  "binds B1 m \<Longrightarrow> (\<And>env1. dom env1 = B1 \<Longrightarrow> binds B2 (f env1)) \<Longrightarrow> binds B2 (bind m f)"
proof (rule binds_bind_when [where P = "\<lambda>env1. dom env1 = B1"])
  fix c a c'
  assume "binds B1 m" and "(Returns a, c') \<in> m c"
  then show "dom a = B1" unfolding binds_def by blast
qed

lemma binds_unpack_to:
  "dom env1 = B1 \<Longrightarrow> binds (B1 \<union> set (concat (map target_names ts))) (unpack_to R v n i ts env1)"
proof (induction ts arbitrary: i env1 B1)
  case Nil
  then show ?case by (simp add: binds_ret)
next
  case (Cons t ts)
  show ?case
  proof (cases t)
    case (Name x)
    have "binds (insert x B1 \<union> set (concat (map target_names ts)))
        (bind (prim R (UnpackItem n i) [v]) (\<lambda>u. unpack_to R v n (Suc i) ts (env1(x \<mapsto> u))))"
    proof (rule binds_bind)
      fix u
      from Cons.prems have "dom (env1(x \<mapsto> u)) = insert x B1" by simp
      from Cons.IH [OF this]
      show "binds (insert x B1 \<union> set (concat (map target_names ts)))
          (unpack_to R v n (Suc i) ts (env1(x \<mapsto> u)))" .
    qed
    with Name show ?thesis by simp
  qed (simp_all add: binds_stuck)
qed

lemma binds_assign: "dom env = B \<Longrightarrow> binds (B \<union> set (target_names t)) (assign R env t v)"
proof (cases t)
  case (Name x)
  assume "dom env = B"
  with Name show ?thesis by (simp add: binds_ret)
next
  case (Attribute e a)
  assume "dom env = B"
  with Attribute show ?thesis by (auto intro!: binds_bind binds_ret)
next
  case (TupleExpr ts)
  assume "dom env = B"
  from binds_unpack_to [OF this] TupleExpr show ?thesis by simp
qed (simp_all add: binds_stuck)

lemma binds_import_from:
  "dom env1 = B1 \<Longrightarrow> binds (B1 \<union> set ns) (import_from R m ns env1)"
proof (induction ns arbitrary: env1 B1)
  case Nil
  then show ?case by (simp add: binds_ret)
next
  case (Cons n ns)
  have "binds (insert n B1 \<union> set ns)
      (bind (prim R (GetAttr n) [m]) (\<lambda>v. import_from R m ns (env1(n \<mapsto> v))))"
  proof (rule binds_bind)
    fix v
    from Cons.prems have "dom (env1(n \<mapsto> v)) = insert n B1" by simp
    from Cons.IH [OF this]
    show "binds (insert n B1 \<union> set ns) (import_from R m ns (env1(n \<mapsto> v)))" .
  qed
  then show ?case by simp
qed

lemma binds_exec_stmt:
  assumes "dom env = B"
  shows "binds (B \<union> set (stmt_binds s)) (exec_stmt R s env)"
proof (cases s)
  case (Import m a)
  with assms show ?thesis by (auto intro!: binds_bind binds_ret)
next
  case (ImportFrom m ns)
  with assms show ?thesis by (auto intro!: binds_bind binds_import_from)
next
  case (Assign t e)
  with assms show ?thesis by (auto intro!: binds_bind binds_assign)
next
  case (AugAssign t op e)
  with assms show ?thesis
    by (cases t) (auto intro!: binds_bind binds_ret binds_stuck)
next
  case (Expr e)
  with assms show ?thesis by (auto intro!: binds_bind binds_ret)
next
  case (Magic m)
  with assms show ?thesis by (auto intro!: binds_bind binds_ret)
next
  case (Comment c)
  with assms show ?thesis by (auto intro!: binds_ret)
next
  case (OtherStmt k es body)
  then show ?thesis by (simp add: binds_stuck)
qed

lemma binds_exec_stmts:
  "dom env = B \<Longrightarrow> binds (B \<union> set (bound_names ss)) (exec_stmts R ss env)"
proof (induction ss arbitrary: env B)
  case Nil
  then show ?case by (simp add: binds_ret bound_names_def)
next
  case (Cons s ss)
  have "binds (B \<union> set (stmt_binds s) \<union> set (bound_names ss))
      (bind (exec_stmt R s env) (exec_stmts R ss))"
    by (rule binds_seq [OF binds_exec_stmt [OF Cons.prems]]) (rule Cons.IH)
  then show ?case by (simp add: bound_names_def Un_assoc)
qed

lemma logs_unpack_to: "logs (unpack_ops n i ts) (unpack_to R v n i ts env)"
proof (induction ts arbitrary: i env)
  case Nil
  show ?case by (simp add: logs_ret)
next
  case (Cons t ts)
  show ?case
  proof (cases t)
    case (Name x)
    have "logs ([UnpackItem n i] @ unpack_ops n (Suc i) ts)
        (bind (prim R (UnpackItem n i) [v]) (\<lambda>u. unpack_to R v n (Suc i) ts (env(x \<mapsto> u))))"
      by (intro logs_bind logs_prim Cons.IH)
    with Name show ?thesis by simp
  qed (simp_all add: logs_stuck)
qed

lemma logs_assign: "dom env = B \<Longrightarrow> logs (target_ops B t) (assign R env t v)"
proof (cases t)
  case (Name x)
  then show ?thesis by (simp add: logs_ret)
next
  case (Attribute e a)
  assume B: "dom env = B"
  have "logs (expr_ops B e @ ([SetAttr a] @ [])) (assign R env (Attribute e a) v)"
    unfolding assign.simps
    by (intro logs_bind logs_prim logs_ret logs_eval B)
  with Attribute show ?thesis by simp
next
  case (TupleExpr ts)
  then show ?thesis by (simp add: logs_unpack_to)
qed (simp_all add: logs_stuck)

lemma logs_import_from: "logs (map GetAttr ns) (import_from R m ns env)"
proof (induction ns arbitrary: env)
  case Nil
  show ?case by (simp add: logs_ret)
next
  case (Cons n ns)
  have "logs ([GetAttr n] @ map GetAttr ns)
      (bind (prim R (GetAttr n) [m]) (\<lambda>v. import_from R m ns (env(n \<mapsto> v))))"
    by (intro logs_bind logs_prim Cons.IH)
  then show ?case by simp
qed

lemma logs_exec_stmt:
  assumes B: "dom env = B"
  shows "logs (stmt_ops B s) (exec_stmt R s env)"
proof (cases s)
  case (Import m a)
  have "logs ([ImportModule m] @ []) (exec_stmt R (Import m a) env)"
    unfolding exec_stmt.simps by (intro logs_bind logs_prim logs_ret)
  with Import show ?thesis by simp
next
  case (ImportFrom m ns)
  have "logs ([ImportModule m] @ map GetAttr ns) (exec_stmt R (ImportFrom m ns) env)"
    unfolding exec_stmt.simps by (intro logs_bind logs_prim logs_import_from)
  with ImportFrom show ?thesis by simp
next
  case (Assign t e)
  have "logs (expr_ops B e @ target_ops B t) (exec_stmt R (Assign t e) env)"
    unfolding exec_stmt.simps by (intro logs_bind logs_eval logs_assign B)
  with Assign show ?thesis by simp
next
  case (AugAssign t op e)
  show ?thesis
  proof (cases t)
    case (Name x)
    have "logs (expr_ops B (Name x) @ (expr_ops B e @ ([Inplace op] @ [])))
        (exec_stmt R (AugAssign (Name x) op e) env)"
      unfolding exec_stmt.simps by (intro logs_bind logs_prim logs_ret logs_eval B)
    with AugAssign Name show ?thesis by simp
  next
    case (Attribute u a)
    have "logs (expr_ops B u @ ([GetAttr a] @ (expr_ops B e @ ([Inplace op] @ ([SetAttr a] @ [])))))
        (exec_stmt R (AugAssign (Attribute u a) op e) env)"
      unfolding exec_stmt.simps by (intro logs_bind logs_prim logs_ret logs_eval B)
    with AugAssign Attribute show ?thesis by simp
  qed (simp_all add: AugAssign logs_stuck)
next
  case (Expr e)
  have "logs (expr_ops B e @ []) (exec_stmt R (Expr e) env)"
    unfolding exec_stmt.simps by (intro logs_bind logs_ret logs_eval B)
  with Expr show ?thesis by simp
next
  case (Magic m)
  have "logs ([RunMagic m] @ []) (exec_stmt R (Magic m) env)"
    unfolding exec_stmt.simps by (intro logs_bind logs_prim logs_ret)
  with Magic show ?thesis by simp
next
  case (Comment c)
  then show ?thesis by (simp add: logs_ret)
next
  case (OtherStmt k es body)
  then show ?thesis by (simp add: logs_stuck)
qed

lemma logs_exec_stmts: "dom env = B \<Longrightarrow> logs (stmts_ops B ss) (exec_stmts R ss env)"
proof (induction ss arbitrary: env B)
  case Nil
  show ?case by (simp add: logs_ret)
next
  case (Cons s ss)
  have "logs (stmt_ops B s @ stmts_ops (B \<union> set (stmt_binds s)) ss)
      (bind (exec_stmt R s env) (exec_stmts R ss))"
  proof (rule logs_bind_when [where P = "\<lambda>env1. dom env1 = B \<union> set (stmt_binds s)"])
    show "logs (stmt_ops B s) (exec_stmt R s env)" using Cons.prems by (rule logs_exec_stmt)
  next
    fix c env1 c'
    assume "(Returns env1, c') \<in> exec_stmt R s env c"
    with binds_exec_stmt [OF Cons.prems, of s R] show "dom env1 = B \<union> set (stmt_binds s)"
      unfolding binds_def by blast
  next
    fix env1 :: "'a env"
    assume "dom env1 = B \<union> set (stmt_binds s)"
    then show "logs (stmts_ops (B \<union> set (stmt_binds s)) ss) (exec_stmts R ss env1)"
      by (rule Cons.IH)
  qed
  then show ?case by simp
qed

lemma bound_names_display:
  "displayed (Cell ss semi) = Some e \<Longrightarrow> bound_names ss = bound_names (butlast ss)"
proof -
  assume d: "displayed (Cell ss semi) = Some e"
  from displayed_SomeD [OF d] have "ss = butlast ss @ [Expr e]"
    by (metis append_butlast_last_id)
  then have "bound_names ss = bound_names (butlast ss @ [Expr e])" by simp
  then show ?thesis by (simp add: bound_names_def)
qed

lemma logs_exec_cell:
  assumes B: "dom env = B"
  shows "logs (cell_ops B cl) (exec_cell R cl env)"
proof (cases cl)
  case (Cell ss semi)
  show ?thesis
  proof (cases "displayed (Cell ss semi)")
    case None
    with Cell B show ?thesis by (simp add: logs_exec_stmts)
  next
    case (Some e)
    let ?B1 = "B \<union> set (bound_names (butlast ss))"
    have "logs (stmts_ops B (butlast ss) @ (expr_ops ?B1 e @ ([Display] @ [])))
        (bind (exec_stmts R (butlast ss) env) (\<lambda>env'.
          bind (eval R env' e) (\<lambda>v. bind (prim R Display [v]) (\<lambda>u. ret env'))))"
    proof (rule logs_bind_when [where P = "\<lambda>env1. dom env1 = ?B1"])
      show "logs (stmts_ops B (butlast ss)) (exec_stmts R (butlast ss) env)"
        using B by (rule logs_exec_stmts)
    next
      fix c env1 c'
      assume "(Returns env1, c') \<in> exec_stmts R (butlast ss) env c"
      with binds_exec_stmts [OF B, of "butlast ss" R] show "dom env1 = ?B1"
        unfolding binds_def by blast
    next
      fix env1 :: "'a env"
      assume "dom env1 = ?B1"
      then show "logs (expr_ops ?B1 e @ ([Display] @ []))
          (bind (eval R env1 e) (\<lambda>v. bind (prim R Display [v]) (\<lambda>u. ret env1)))"
        by (intro logs_bind logs_prim logs_ret logs_eval)
    qed
    with Cell Some show ?thesis by simp
  qed
qed

lemma binds_exec_cell:
  assumes B: "dom env = B"
  shows "binds (B \<union> set (bound_names (cell_stmts cl))) (exec_cell R cl env)"
proof (cases cl)
  case (Cell ss semi)
  show ?thesis
  proof (cases "displayed (Cell ss semi)")
    case None
    with Cell binds_exec_stmts [OF B, of ss R] show ?thesis by simp
  next
    case (Some e)
    have "binds (B \<union> set (bound_names (butlast ss)))
        (bind (exec_stmts R (butlast ss) env) (\<lambda>env'.
          bind (eval R env' e) (\<lambda>v. bind (prim R Display [v]) (\<lambda>u. ret env'))))"
      by (rule binds_seq [OF binds_exec_stmts [OF B]]) (auto intro!: binds_bind binds_ret)
    with Cell Some bound_names_display [OF Some] show ?thesis by simp
  qed
qed

lemma logs_exec_cells: "dom env = B \<Longrightarrow> logs (cells_ops B nb) (exec_cells R nb env)"
proof (induction nb arbitrary: env B)
  case Nil
  show ?case by (simp add: logs_ret)
next
  case (Cons cl nb)
  have "logs (cell_ops B cl @ cells_ops (B \<union> set (bound_names (cell_stmts cl))) nb)
      (bind (exec_cell R cl env) (exec_cells R nb))"
  proof (rule logs_bind_when [where P = "\<lambda>env1. dom env1 = B \<union> set (bound_names (cell_stmts cl))"])
    show "logs (cell_ops B cl) (exec_cell R cl env)" using Cons.prems by (rule logs_exec_cell)
  next
    fix c env1 c'
    assume "(Returns env1, c') \<in> exec_cell R cl env c"
    with binds_exec_cell [OF Cons.prems, of cl R]
    show "dom env1 = B \<union> set (bound_names (cell_stmts cl))"
      unfolding binds_def by blast
  next
    fix env1 :: "'a env"
    assume "dom env1 = B \<union> set (bound_names (cell_stmts cl))"
    then show "logs (cells_ops (B \<union> set (bound_names (cell_stmts cl))) nb) (exec_cells R nb env1)"
      by (rule Cons.IH)
  qed
  then show ?case by simp
qed

lemma run_logged: "(r, w', tr) \<in> run R nb w \<Longrightarrow> logged (operations nb) r tr"
proof -
  assume "(r, w', tr) \<in> run R nb w"
  then have "(r, w', tr) \<in> exec_cells R nb Map.empty (w, [])" by (simp add: run_def)
  moreover have "logs (cells_ops {} nb) (exec_cells R nb Map.empty)"
    by (rule logs_exec_cells) simp
  ultimately show ?thesis unfolding logs_def operations_def by fastforce
qed

lemma run_length: "(r, w', tr) \<in> run R nb w \<Longrightarrow> length tr \<le> length (operations nb)"
proof -
  assume "(r, w', tr) \<in> run R nb w"
  from run_logged [OF this] show ?thesis
  proof (cases r)
    case (Returns a)
    assume "logged (operations nb) r tr"
    with Returns have "map op_of tr = operations nb" by simp
    then have "length (map op_of tr) = length (operations nb)" by simp
    then show ?thesis by simp
  next
    case (Raises e)
    assume "logged (operations nb) r tr"
    with Raises have "map op_of tr = take (length tr) (operations nb)" by simp
    then have "length (map op_of tr) = length (take (length tr) (operations nb))" by simp
    then show ?thesis by simp
  qed
qed

lemma run_operations:
  "(r, w', tr) \<in> run R nb w \<Longrightarrow> set (map op_of tr) \<subseteq> set (operations nb)"
proof -
  assume "(r, w', tr) \<in> run R nb w"
  from run_logged [OF this] show ?thesis
  proof (cases r)
    case (Returns a)
    assume "logged (operations nb) r tr"
    with Returns show ?thesis by simp
  next
    case (Raises e)
    assume "logged (operations nb) r tr"
    with Raises have "map op_of tr = take (length tr) (operations nb)" by simp
    then show ?thesis by (metis set_take_subset)
  qed
qed

subsection \<open>Evaluating a run\<close>

lemma bind_apply: "bind m f c = (\<Union>rc \<in> m c. after rc f)"
  by (simp add: bind_def)

lemma after_Returns: "after (Returns a, c) f = f a c"
  by (simp add: after_def)

lemma after_Raises: "after (Raises e, c) f = {(Raises e, c)}"
  by (simp add: after_def)

lemmas run_simps = run_def ret_def prim_def bind_apply after_Returns after_Raises

lemma total_missing_file: "total_runtime missing_file"
  by (simp add: total_runtime_def missing_file_def split: primop.split)

lemma deterministic_missing_file: "deterministic missing_file"
  by (simp add: deterministic_def missing_file_def split: primop.split)

lemma missing_file_run:
  "\<exists>tr. (Raises ''FileNotFoundError'', (), tr) \<in> run missing_file cta_sensitivity ()"
  by (simp add: run_simps nb_defs missing_file_def)

lemma correction_cell_run:
  "\<exists>env' tr. (Returns env', (), tr) \<in>
     exec_cell missing_file cta_containment names_before_correction ((), [])"
  by (simp add: run_simps cta_containment_def missing_file_def names_before_correction_def)

section \<open>The claims\<close>

subsection \<open>Arithmetic of the cells\<close>

lemma masked_all: "masked (replicate (length xs) True) xs = xs"
  by (induction xs) (simp_all add: masked_def)

lemma correction_example:
  "\<exists>s'. containment_correction wide_psf (before_correction [1, 2] [1, 2, 3] () example_dataset)
          = Inr s'"
  by (simp add: containment_correction_def before_correction_def wide_psf_def
      example_dataset_def Let_def first_row_def imul_column_def solid_angle_ratio_def)

text \<open>
  Claim C3. In cta\_sensitivity, when the library returns one containment radius per bin
  of reconstructed energy, the containment-correction cell runs without an exception;
  afterwards the effective area is 0.68 times its prior value in every bin, and the
  background of bin \<open>k\<close> is its prior value times
  \<open>(1 - cos r\<^sub>k) / (1 - cos 0.1\<degree>)\<close>, where \<open>r\<^sub>k\<close> is the radius that
  \<open>containment_radius\<close> returned for the centre of bin \<open>k\<close>, the offset 0.5 degrees and
  the fraction 0.68.
\<close>

theorem containment_correction_values:
  assumes rows: "containment_radius L ob (center L reco) 0.5 0.68 = Inr (radii # rest)"
    and bins: "length radii = length (background ds)"
  shows "\<exists>s'. containment_correction L (before_correction reco tru ob ds) = Inr s' \<and>
           aeff (dataset s') = map (\<lambda>a. 0.68 * a) (aeff ds) \<and>
           on_radii s' = Some radii \<and>
           length (background (dataset s')) = length (background ds) \<and>
           (\<forall>k < length (background ds).
              background (dataset s') ! k =
                background ds ! k *
                  ((1 - cos (radii ! k * pi / 180)) / (1 - cos (0.1 * pi / 180))))"
  using rows bins
  by (simp add: containment_correction_def before_correction_def Let_def first_row_def
      imul_column_def imul_scalar_def solid_angle_ratio_def cos_deg_def)

theorem containment_correction_values_witness:
  "\<exists>s'. containment_correction wide_psf (before_correction [1, 2] [1, 2, 3] () example_dataset)
          = Inr s' \<and>
        aeff (dataset s') = [68, 136, 204] \<and>
        on_radii s' = Some [60, 60] \<and>
        background (dataset s') ! 0 =
          10 * ((1 - cos (60 * pi / 180)) / (1 - cos (0.1 * pi / 180))) \<and>
        background (dataset s') ! 1 =
          20 * ((1 - cos (60 * pi / 180)) / (1 - cos (0.1 * pi / 180)))"
proof -
  have rows: "containment_radius wide_psf () (center wide_psf [1, 2]) 0.5 0.68
      = Inr ([60, 60] # [])"
    by (simp add: wide_psf_def)
  have bins: "length [60, 60 :: real] = length (background example_dataset)"
    by (simp add: example_dataset_def)
  from containment_correction_values [OF rows bins, of "[1, 2, 3]"]
  obtain s' where run: "containment_correction wide_psf
        (before_correction [1, 2] [1, 2, 3] () example_dataset) = Inr s'"
    and a: "aeff (dataset s') = map (\<lambda>a. 0.68 * a) (aeff example_dataset)"
    and r: "on_radii s' = Some [60, 60]"
    and b: "\<forall>k < length (background example_dataset).
              background (dataset s') ! k =
                background example_dataset ! k *
                  ((1 - cos ([60, 60] ! k * pi / 180)) / (1 - cos (0.1 * pi / 180)))"
    by blast
  from b have b0: "background (dataset s') ! 0 =
      background example_dataset ! 0 *
        ((1 - cos ([60, 60] ! 0 * pi / 180)) / (1 - cos (0.1 * pi / 180)))"
    by (simp add: example_dataset_def)
  from b have b1: "background (dataset s') ! 1 =
      background example_dataset ! 1 *
        ((1 - cos ([60, 60] ! 1 * pi / 180)) / (1 - cos (0.1 * pi / 180)))"
    by (simp add: example_dataset_def)
  from a have a': "aeff (dataset s') = [68, 136, 204]"
    by (simp add: example_dataset_def)
  from b0 have b0': "background (dataset s') ! 0 =
      10 * ((1 - cos (60 * pi / 180)) / (1 - cos (0.1 * pi / 180)))"
    by (simp add: example_dataset_def)
  from b1 have b1': "background (dataset s') ! 1 =
      20 * ((1 - cos (60 * pi / 180)) / (1 - cos (0.1 * pi / 180)))"
    by (simp add: example_dataset_def)
  from run a' r b0' b1' show ?thesis by blast
qed

text \<open>
  Claim C8. The containment-correction cell assigns to \<open>containment\<close>,
  \<open>dataset.aeff.data.data\<close>, \<open>on_radii\<close>, \<open>factor\<close> and \<open>dataset.background.data\<close>
  and to nothing else. Whether it completes or stops at an exception, it leaves the
  region and its radius, the two energy axes, the observation and the energy dispersion
  of the dataset as they were. In every run of the cell, under any runtime, the names
  \<open>region\<close>, \<open>e_reco\<close>, \<open>e_true\<close>, \<open>obs\<close> and \<open>dataset\<close> are bound afterwards as
  they were before.
\<close>

theorem containment_correction_frame:
  assumes "containment_correction L s = Inr s' \<or> containment_correction L s = Inl (e, s')"
    and "(Returns env', c') \<in> exec_cell R cta_containment env c"
  shows "targets (cell_stmts cta_containment) =
           [Name ''containment'',
            Attribute (Attribute (Attribute (Name ''dataset'') ''aeff'') ''data'') ''data'',
            Name ''on_radii'',
            Name ''factor'',
            Attribute (Attribute (Name ''dataset'') ''background'') ''data''] \<and>
         region_radius s' = region_radius s \<and> e_reco s' = e_reco s \<and>
         e_true s' = e_true s \<and> obs s' = obs s \<and>
         edisp (dataset s') = edisp (dataset s) \<and>
         env' ''region'' = env ''region'' \<and> env' ''e_reco'' = env ''e_reco'' \<and>
         env' ''e_true'' = env ''e_true'' \<and> env' ''obs'' = env ''obs'' \<and>
         env' ''dataset'' = env ''dataset''"
proof -
  have "targets (cell_stmts cta_containment) =
           [Name ''containment'',
            Attribute (Attribute (Attribute (Name ''dataset'') ''aeff'') ''data'') ''data'',
            Name ''on_radii'',
            Name ''factor'',
            Attribute (Attribute (Name ''dataset'') ''background'') ''data'']"
    by code_simp
  moreover from assms(1) have "region_radius s' = region_radius s \<and> e_reco s' = e_reco s \<and>
         e_true s' = e_true s \<and> obs s' = obs s \<and>
         edisp (dataset s') = edisp (dataset s)"
    by (auto simp: containment_correction_def Let_def split: sum.splits)
  moreover have b: "bound_names (cell_stmts cta_containment)
      = [''containment'', ''on_radii'', ''factor'']"
    by code_simp
  have "env' ''region'' = env ''region'' \<and> env' ''e_reco'' = env ''e_reco'' \<and>
         env' ''e_true'' = env ''e_true'' \<and> env' ''obs'' = env ''obs'' \<and>
         env' ''dataset'' = env ''dataset''"
    using exec_cell_keeps [OF assms(2)] by (simp add: b)
  ultimately show ?thesis by blast
qed

theorem containment_correction_frame_witness:
  "\<exists>s' env' tr.
     containment_correction wide_psf (before_correction [1, 2] [1, 2, 3] () example_dataset)
       = Inr s' \<and>
     (Returns env', (), tr) \<in>
       exec_cell missing_file cta_containment names_before_correction ((), []) \<and>
     region_radius s' = 0.1 \<and> e_reco s' = [1, 2] \<and> e_true s' = [1, 2, 3] \<and>
     obs s' = () \<and> edisp (dataset s') = () \<and>
     env' ''region'' = Some ''the region'' \<and> env' ''e_reco'' = Some ''the reco axis'' \<and>
     env' ''e_true'' = Some ''the true axis'' \<and> env' ''obs'' = Some ''the observation'' \<and>
     env' ''dataset'' = Some ''the dataset''"
proof -
  from correction_example obtain s' where run:
    "containment_correction wide_psf (before_correction [1, 2] [1, 2, 3] () example_dataset)
       = Inr s'" ..
  then have either: "containment_correction wide_psf
        (before_correction [1, 2] [1, 2, 3] () example_dataset) = Inr s' \<or>
      containment_correction wide_psf
        (before_correction [1, 2] [1, 2, 3] () example_dataset) = Inl (undefined, s')"
    by simp
  from correction_cell_run obtain env' tr where cell:
    "(Returns env', (), tr) \<in>
       exec_cell missing_file cta_containment names_before_correction ((), [])"
    by blast
  from containment_correction_frame [OF either cell]
  have "region_radius s' = 0.1 \<and> e_reco s' = [1, 2] \<and> e_true s' = [1, 2, 3] \<and>
     obs s' = () \<and> edisp (dataset s') = () \<and>
     env' ''region'' = Some ''the region'' \<and> env' ''e_reco'' = Some ''the reco axis'' \<and>
     env' ''e_true'' = Some ''the true axis'' \<and> env' ''obs'' = Some ''the observation'' \<and>
     env' ''dataset'' = Some ''the dataset''"
    by (simp add: before_correction_def names_before_correction_def)
  with run cell show ?thesis by blast
qed

text \<open>
  Claim C9. In detect, the safe-data mask is built without an exception whatever the
  counts cube is; it has the geometry and the shape of the counts cube and is true
  everywhere, so that it keeps every pixel of the counts. The names \<open>mask_safe\<close> and
  \<open>counts\<close> are assigned once each, \<open>mask_safe\<close> from that expression, and they are
  what the \<open>MapDataset\<close> constructor receives as \<open>mask_safe\<close> and \<open>counts\<close>.
\<close>

theorem mask_safe_keeps_every_pixel:
  "mask_safe counts =
     Inr \<lparr>geom = geom counts,
          data = \<lparr>shape = shape (data counts),
                  flat = replicate (length (flat (data counts))) True\<rparr>\<rparr> \<and>
   masked (replicate (length (flat (data counts))) True) (flat (data counts))
     = flat (data counts) \<and>
   assigned_values ''mask_safe'' detect =
     [Call (Attribute (Name ''counts'') ''copy'') []
        [Keyword ''data''
           (Call
              (Attribute
                 (Call (Attribute (Name ''np'') ''ones_like'')
                    [Attribute (Name ''counts'') ''data''] [])
                 ''astype'')
              [StrC ''bool''] [])]] \<and>
   length (assigned_values ''counts'' detect) = 1 \<and>
   Keyword ''mask_safe'' (Name ''mask_safe'') \<in> set (call_keywords ''MapDataset'' detect) \<and>
   Keyword ''counts'' (Name ''counts'') \<in> set (call_keywords ''MapDataset'' detect)"
proof -
  have "mask_safe counts =
     Inr \<lparr>geom = geom counts,
          data = \<lparr>shape = shape (data counts),
                  flat = replicate (length (flat (data counts))) True\<rparr>\<rparr>"
    by (simp add: mask_safe_def copy_with_data_def astype_bool_def ones_like_def
        map_replicate_const)
  moreover have "assigned_values ''mask_safe'' detect =
     [Call (Attribute (Name ''counts'') ''copy'') []
        [Keyword ''data''
           (Call
              (Attribute
                 (Call (Attribute (Name ''np'') ''ones_like'')
                    [Attribute (Name ''counts'') ''data''] [])
                 ''astype'')
              [StrC ''bool''] [])]]"
    by code_simp
  moreover have "length (assigned_values ''counts'' detect) = 1"
    by code_simp
  moreover have "Keyword ''mask_safe'' (Name ''mask_safe'')
      \<in> set (call_keywords ''MapDataset'' detect)"
    by code_simp
  moreover have "Keyword ''counts'' (Name ''counts'')
      \<in> set (call_keywords ''MapDataset'' detect)"
    by code_simp
  ultimately show ?thesis by (simp add: masked_all)
qed

subsection \<open>What the notebooks compute and call\<close>

text \<open>
  Claim C1, as stated: the notebooks compute no numeric result of their own, that is,
  they apply no operator themselves. This fails for cta\_sensitivity: it applies
  operators, and with them it turns the effective area 100, 200, 300 that the library
  made into 68, 136, 204, which no call of the library returned.
\<close>

theorem delegates_all_counterexample:
  "\<not> delegates_all cta_sensitivity \<and>
   (\<exists>s'. containment_correction wide_psf
            (before_correction [1, 2] [1, 2, 3] () example_dataset) = Inr s' \<and>
         aeff example_dataset = [100, 200, 300] \<and>
         aeff (dataset s') = [68, 136, 204])"
proof -
  have "\<not> delegates_all cta_sensitivity"
    by code_simp
  moreover have "\<exists>s'. containment_correction wide_psf
            (before_correction [1, 2] [1, 2, 3] () example_dataset) = Inr s' \<and>
         aeff example_dataset = [100, 200, 300] \<and>
         aeff (dataset s') = [68, 136, 204]"
    by (simp add: containment_correction_def before_correction_def wide_psf_def
        example_dataset_def Let_def first_row_def imul_column_def imul_scalar_def
        solid_angle_ratio_def)
  ultimately show ?thesis by blast
qed

text \<open>
  Claim C1, amended. The four named computations are calls into the library: the
  containment radius is looked up by \<open>containment_radius\<close>, the Li and Ma significance
  is computed in the run of the one estimator object of cta\_sensitivity, adaptive
  smoothing and the TS map in the runs of the two estimator objects of detect. detect
  applies no operator. cta\_sensitivity applies ten, cell by cell: the product
  \<open>0.1 * u.deg\<close> in the region cell; in the containment-correction cell the in-place
  product that scales the effective area, the product \<open>0.5 * u.deg\<close>, the two
  differences and the quotient of the factor, the sign of \<open>-1\<close> and the in-place
  product that scales the background; and two comparisons in the plot cell. The
  correction of the effective area and of the background is arithmetic of the notebook.
  These operators are the operator applications among the operations that a complete
  run asks of the runtime; a run of detect asks for none.
\<close>

theorem notebook_arithmetic:
  "delegates_all detect \<and>
   map (\<lambda>c. operators [c]) cta_sensitivity =
     [[], [], [Binary Mult], [], [],
      [Inplace Mult, Binary Mult, Binary Sub, Binary Sub, Binary Div, Unary USub, Inplace Mult],
      [], [], [], [], [CompareOp Eq, CompareOp Eq], []] \<and>
   ''containment_radius'' \<in> set (map callee_name (calls cta_sensitivity)) \<and>
   imported_from ''gammapy.estimators'' cta_sensitivity = [''SensitivityEstimator''] \<and>
   imported_from ''gammapy.estimators'' detect = [''ASmoothMapEstimator'', ''TSMapEstimator''] \<and>
   estimator_objects cta_sensitivity = [''sensitivity_estimator''] \<and>
   estimator_objects detect = [''smooth'', ''estimator''] \<and>
   length (estimator_runs cta_sensitivity) = 1 \<and>
   length (estimator_runs detect) = 2 \<and>
   filter is_operator (operations cta_sensitivity) = operators cta_sensitivity \<and>
   filter is_operator (operations detect) = []"
proof -
  have "filter is_operator (operations cta_sensitivity) = operators cta_sensitivity"
    and "filter is_operator (operations detect) = []"
    by code_simp+
  moreover have "delegates_all detect"
    by code_simp
  moreover have "map (\<lambda>c. operators [c]) cta_sensitivity =
     [[], [], [Binary Mult], [], [],
      [Inplace Mult, Binary Mult, Binary Sub, Binary Sub, Binary Div, Unary USub, Inplace Mult],
      [], [], [], [], [CompareOp Eq, CompareOp Eq], []]"
    by code_simp
  moreover have "''containment_radius'' \<in> set (map callee_name (calls cta_sensitivity))"
    by code_simp
  moreover have "imported_from ''gammapy.estimators'' cta_sensitivity = [''SensitivityEstimator'']"
    and "imported_from ''gammapy.estimators'' detect = [''ASmoothMapEstimator'', ''TSMapEstimator'']"
    by code_simp+
  moreover have "estimator_objects cta_sensitivity = [''sensitivity_estimator'']"
    and "estimator_objects detect = [''smooth'', ''estimator'']"
    by code_simp+
  moreover have "length (estimator_runs cta_sensitivity) = 1"
    and "length (estimator_runs detect) = 2"
    by code_simp+
  ultimately show ?thesis by blast
qed

text \<open>
  Claim C4. The calls that name a file are the FITS reads: \<open>load_cta_irfs\<close> in
  cta\_sensitivity and four calls of \<open>read\<close> in detect; no other string constant of a
  notebook is a path. The functions and methods that the notebooks call are the ones
  listed, none of which writes a file, and neither notebook loads or stores an attribute
  \<open>write\<close>. The cell
  that holds the call of \<open>sensitivity_table.write\<close> holds it in a comment: running the
  cell asks nothing of the runtime and changes neither the names nor the world. No run
  of either notebook, under any runtime, ever asks for an attribute \<open>write\<close>.
\<close>

theorem notebooks_write_no_file:
  "file_reads cta_sensitivity =
     [(''load_cta_irfs'',
       ''$GAMMAPY_DATA/cta-1dc/caldb/data/cta/1dc/bcf/South_z20_50h/irf_file.fits'')] \<and>
   file_reads detect =
     [(''read'', ''$GAMMAPY_DATA/fermi-3fhl-gc/fermi-3fhl-gc-counts-cube.fits.gz''),
      (''read'', ''$GAMMAPY_DATA/fermi-3fhl-gc/fermi-3fhl-gc-background-cube.fits.gz''),
      (''read'', ''$GAMMAPY_DATA/fermi-3fhl-gc/fermi-3fhl-gc-exposure-cube.fits.gz''),
      (''read'', ''$GAMMAPY_DATA/fermi-3fhl-gc/fermi-3fhl-gc-psf-cube.fits.gz'')] \<and>
   path_strings cta_sensitivity = map snd (file_reads cta_sensitivity) \<and>
   path_strings detect = map snd (file_reads detect) \<and>
   called_names cta_sensitivity =
     [''SkyCoord'', ''CircleSkyRegion'', ''from_energy_bounds'', ''create'',
      ''load_cta_irfs'', ''SpectrumDatasetMaker'', ''run'', ''containment_radius'', ''cos'',
      ''reshape'', ''from_spectrum_dataset'', ''SensitivityEstimator'', ''plot'', ''loglog'',
      ''xlabel'', ''ylabel'', ''legend'', ''subplots'', ''set_xlabel'', ''set_ylabel'',
      ''twinx'', ''semilogy'', ''tick_params'', ''set_ylim''] \<and>
   called_names detect =
     [''read'', ''BackgroundModel'', ''ones_like'', ''astype'', ''copy'',
      ''from_energy_dependent_table_psf'', ''MapDataset'', ''to_image'', ''arange'',
      ''Quantity'', ''ASmoothMapEstimator'', ''run'', ''figure'', ''plot'',
      ''PointSpatialModel'', ''PowerLawSpectralModel'', ''SkyModel'', ''TSMapEstimator'',
      ''find_peaks'', ''len'', ''gca'', ''get_transform'', ''scatter''] \<and>
   ''write'' \<notin> set (attribute_names cta_sensitivity) \<and>
   ''write'' \<notin> set (attribute_names detect) \<and>
   exec_cell R cta_save env c = {(Returns env, c)} \<and>
   ((nb = cta_sensitivity \<or> nb = detect) \<and> (r, w', tr) \<in> run R nb w \<longrightarrow>
      GetAttr ''write'' \<notin> set (map op_of tr))"
proof -
  have "GetAttr ''write'' \<notin> set (operations cta_sensitivity)"
    and "GetAttr ''write'' \<notin> set (operations detect)"
    by code_simp+
  then have 10: "(nb = cta_sensitivity \<or> nb = detect) \<and> (r, w', tr) \<in> run R nb w \<longrightarrow>
      GetAttr ''write'' \<notin> set (map op_of tr)"
    using run_operations [of r w' tr R nb w] by blast
  have 8: "called_names cta_sensitivity =
     [''SkyCoord'', ''CircleSkyRegion'', ''from_energy_bounds'', ''create'',
      ''load_cta_irfs'', ''SpectrumDatasetMaker'', ''run'', ''containment_radius'', ''cos'',
      ''reshape'', ''from_spectrum_dataset'', ''SensitivityEstimator'', ''plot'', ''loglog'',
      ''xlabel'', ''ylabel'', ''legend'', ''subplots'', ''set_xlabel'', ''set_ylabel'',
      ''twinx'', ''semilogy'', ''tick_params'', ''set_ylim'']"
    by code_simp
  have 9: "called_names detect =
     [''read'', ''BackgroundModel'', ''ones_like'', ''astype'', ''copy'',
      ''from_energy_dependent_table_psf'', ''MapDataset'', ''to_image'', ''arange'',
      ''Quantity'', ''ASmoothMapEstimator'', ''run'', ''figure'', ''plot'',
      ''PointSpatialModel'', ''PowerLawSpectralModel'', ''SkyModel'', ''TSMapEstimator'',
      ''find_peaks'', ''len'', ''gca'', ''get_transform'', ''scatter'']"
    by code_simp
  have 1: "file_reads cta_sensitivity =
     [(''load_cta_irfs'',
       ''$GAMMAPY_DATA/cta-1dc/caldb/data/cta/1dc/bcf/South_z20_50h/irf_file.fits'')]"
    by code_simp
  have 2: "file_reads detect =
     [(''read'', ''$GAMMAPY_DATA/fermi-3fhl-gc/fermi-3fhl-gc-counts-cube.fits.gz''),
      (''read'', ''$GAMMAPY_DATA/fermi-3fhl-gc/fermi-3fhl-gc-background-cube.fits.gz''),
      (''read'', ''$GAMMAPY_DATA/fermi-3fhl-gc/fermi-3fhl-gc-exposure-cube.fits.gz''),
      (''read'', ''$GAMMAPY_DATA/fermi-3fhl-gc/fermi-3fhl-gc-psf-cube.fits.gz'')]"
    by code_simp
  have 3: "path_strings cta_sensitivity =
     [''$GAMMAPY_DATA/cta-1dc/caldb/data/cta/1dc/bcf/South_z20_50h/irf_file.fits'']"
    by code_simp
  have 4: "path_strings detect =
     [''$GAMMAPY_DATA/fermi-3fhl-gc/fermi-3fhl-gc-counts-cube.fits.gz'',
      ''$GAMMAPY_DATA/fermi-3fhl-gc/fermi-3fhl-gc-background-cube.fits.gz'',
      ''$GAMMAPY_DATA/fermi-3fhl-gc/fermi-3fhl-gc-exposure-cube.fits.gz'',
      ''$GAMMAPY_DATA/fermi-3fhl-gc/fermi-3fhl-gc-psf-cube.fits.gz'']"
    by code_simp
  have 5: "''write'' \<notin> set (attribute_names cta_sensitivity)"
    by code_simp
  have 6: "''write'' \<notin> set (attribute_names detect)"
    by code_simp
  have 7: "exec_cell R cta_save env c = {(Returns env, c)}"
    by (simp add: cta_save_def run_simps)
  from 1 2 3 4 5 6 7 8 9 10 show ?thesis by simp
qed

theorem notebooks_write_no_file_witness:
  "\<exists>tr. (Raises ''FileNotFoundError'', (), tr) \<in> run missing_file cta_sensitivity () \<and>
        GetAttr ''write'' \<notin> set (map op_of tr)"
proof -
  from missing_file_run obtain tr
    where tr: "(Raises ''FileNotFoundError'', (), tr) \<in> run missing_file cta_sensitivity ()" ..
  with notebooks_write_no_file [where nb = cta_sensitivity and tr = tr and R = missing_file
      and r = "Raises ''FileNotFoundError''" and w' = "()" and w = "()"]
  show ?thesis by blast
qed

text \<open>
  Claim C5, as stated: each notebook is a chain of a read, a construction of a dataset,
  one or two estimator runs and an inspection, each stage but the estimators a single
  call. This fails for detect, which reads four files and plots between its two
  estimator runs, and for cta\_sensitivity, which creates its empty dataset before it
  reads the instrument response.
\<close>

theorem chain_of_single_calls_counterexample:
  "\<not> chain_of_single_calls detect \<and> \<not> chain_of_single_calls cta_sensitivity \<and>
   filter (\<lambda>st. st = Read) (stage_sequence detect) = [Read, Read, Read, Read] \<and>
   take 2 (stage_sequence cta_sensitivity) = [Construct, Read]"
  by code_simp

text \<open>
  Claim C5, amended. Each notebook reads FITS files (one call in cta\_sensitivity, four
  in detect), constructs datasets of the library, runs its estimator objects (one in
  cta\_sensitivity, two in detect, each run once, never more than two) and plots. The
  stages are runs of several calls and are interleaved. With repeated stages merged,
  cta\_sensitivity constructs, reads, constructs, estimates and inspects; detect reads,
  constructs, estimates, inspects, estimates and inspects. In both, every read and
  every construction comes before the first estimator run, and every estimator run is
  followed by an inspection.
\<close>

theorem analysis_stages:
  "remdups_adj (stage_sequence cta_sensitivity) = [Construct, Read, Construct, Estimate, Inspect] \<and>
   remdups_adj (stage_sequence detect) = [Read, Construct, Estimate, Inspect, Estimate, Inspect] \<and>
   length (file_reads cta_sensitivity) = 1 \<and>
   length (file_reads detect) = 4 \<and>
   estimator_objects cta_sensitivity = [''sensitivity_estimator''] \<and>
   estimator_objects detect = [''smooth'', ''estimator''] \<and>
   map root_name (estimator_runs cta_sensitivity) = [''sensitivity_estimator''] \<and>
   map root_name (estimator_runs detect) = [''smooth'', ''estimator'']"
proof -
  have "stage_sequence cta_sensitivity =
      [Construct, Read, Construct, Estimate, Inspect, Inspect, Inspect, Inspect,
       Inspect, Inspect, Inspect, Inspect]"
    by code_simp
  then have 1: "remdups_adj (stage_sequence cta_sensitivity) =
      [Construct, Read, Construct, Estimate, Inspect]"
    by simp
  have "stage_sequence detect =
      [Read, Read, Read, Read, Construct, Estimate, Inspect, Inspect, Estimate,
       Inspect, Inspect, Inspect, Inspect, Inspect, Inspect, Inspect, Inspect,
       Inspect, Inspect]"
    by code_simp
  then have 2: "remdups_adj (stage_sequence detect) =
      [Read, Construct, Estimate, Inspect, Estimate, Inspect]"
    by simp
  have 3: "length (file_reads cta_sensitivity) = 1" "length (file_reads detect) = 4"
    by code_simp+
  have 4: "estimator_objects cta_sensitivity = [''sensitivity_estimator'']"
    "estimator_objects detect = [''smooth'', ''estimator'']"
    by code_simp+
  have 5: "map root_name (estimator_runs cta_sensitivity) = [''sensitivity_estimator'']"
    "map root_name (estimator_runs detect) = [''smooth'', ''estimator'']"
    by code_simp+
  from 1 2 3 4 5 show ?thesis by simp
qed

subsection \<open>Runs of the notebooks\<close>



text \<open>
  Claim C6. Both notebooks are straight-line: they contain no loop, no conditional and
  no function definition, hence no recursion. A run asks the runtime for at most 207
  operations in cta\_sensitivity and at most 159 in detect, whatever the runtime does.
  Under a runtime whose operations all terminate, every run of either notebook has an
  outcome, and no run gets stuck on the way: after any number of cells, the remaining
  cells have an outcome from whatever names and configuration the first cells left.
\<close>

theorem notebooks_terminate:
  "straight_line cta_sensitivity \<and> straight_line detect \<and>
   ((r, w', tr) \<in> run R cta_sensitivity w \<longrightarrow> length tr \<le> 207) \<and>
   ((r, w', tr) \<in> run R detect w \<longrightarrow> length tr \<le> 159) \<and>
   (total_runtime R \<longrightarrow>
      run R cta_sensitivity w \<noteq> {} \<and> run R detect w \<noteq> {} \<and>
      exec_cells R (drop k cta_sensitivity) env c \<noteq> {} \<and>
      exec_cells R (drop k detect) env c \<noteq> {})"
proof -
  have "length (operations cta_sensitivity) = 207" and "length (operations detect) = 159"
    by code_simp+
  then have "(r, w', tr) \<in> run R cta_sensitivity w \<longrightarrow> length tr \<le> 207"
    and "(r, w', tr) \<in> run R detect w \<longrightarrow> length tr \<le> 159"
    using run_length [of r w' tr R cta_sensitivity w] run_length [of r w' tr R detect w]
    by simp_all
  with straight_line_cta_sensitivity straight_line_detect run_nonempty [of R _ w]
    rest_nonempty [of R _ k env c]
  show ?thesis by blast
qed

theorem notebooks_terminate_witness:
  "total_runtime missing_file \<and> run missing_file cta_sensitivity () \<noteq> {} \<and>
   run missing_file detect () \<noteq> {} \<and>
   exec_cells missing_file (drop 5 cta_sensitivity) names_before_correction ((), []) \<noteq> {} \<and>
   (\<exists>tr. (Raises ''FileNotFoundError'', (), tr) \<in> run missing_file cta_sensitivity () \<and>
      length tr \<le> 207)"
proof -
  from missing_file_run obtain tr
    where tr: "(Raises ''FileNotFoundError'', (), tr) \<in> run missing_file cta_sensitivity ()" ..
  from notebooks_terminate [where R = missing_file and tr = tr and w = "()" and w' = "()"
      and r = "Raises ''FileNotFoundError''" and k = 5 and env = names_before_correction
      and c = "((), [])"]
    total_missing_file tr
  show ?thesis by blast
qed

text \<open>
  Claim C7. Under a deterministic runtime, two runs of the same notebook from the same
  world have the same outcome: the same names bound to the same values (among them
  \<open>sensitivity_table\<close>, respectively \<open>sources\<close>), the same world and the same log.
\<close>

theorem runs_agree:
  assumes "deterministic R"
  shows "single_result (run R cta_sensitivity w) \<and> single_result (run R detect w)"
  using assms by (simp add: single_result_run)

theorem runs_agree_witness:
  "deterministic missing_file \<and> single_result (run missing_file cta_sensitivity ()) \<and>
   single_result (run missing_file detect ()) \<and> run missing_file detect () \<noteq> {}"
  using runs_agree [of missing_file "()"] deterministic_missing_file
    run_nonempty [OF total_missing_file straight_line_detect, of "()"]
  by blast

end
